theory Spec2Isabelle
  imports Complex_Main "HOL-Library.Multiset" "HOL-Library.Product_Order"
    "HOL-Library.Signed_Division"
begin

section \<open>QM/MM coupling of GROMACS: src/gromacs/mdlib/qmmm.cpp\<close>

text \<open>
  The embedding follows qmmm.cpp function by function. Conventions:
  \<^item> GROMACS \<open>real\<close> (float or double) is the HOL type \<open>real\<close>: rounding is not modelled;
  \<^item> \<open>rvec\<close> is a triple, and every loop \<open>for (j = 0; j < DIM; j++)\<close> over the three
    components is the componentwise operation on the triple;
  \<^item> C \<open>int\<close> values (atom numbers, shift indices) are \<open>int\<close>; loop counters and
    array sizes are \<open>nat\<close>;
  \<^item> an array that qmmm.cpp allocates itself (\<open>snew\<close>, \<open>srenew\<close>) is a list of the
    allocated length, and an access beyond that length is the error \<open>OutOfBounds\<close>;
  \<^item> an array owned by the caller, whose size qmmm.cpp never sees (coordinates, force
    and shift-force accumulators, per-atom data of \<open>t_mdatoms\<close>, the fields of the
    neighbour list), is a function of the index;
  \<^item> \<open>gmx_fatal\<close> and \<open>gmx_incons\<close> end the run: they are the \<open>Inl\<close> results.
\<close>

subsection \<open>Data\<close>

type_synonym rvec = "real \<times> real \<times> real"

type_synonym matrix = "rvec \<times> rvec \<times> rvec"

datatype error =
    CompiledWithoutQMMM
  | CutoffSchemeNotGroup
  | OnlyWithDynamics
  | NotInParallel
  | SemiEmpiricalOnlyMopac
  | SurfaceHoppingOnlyGaussian
  | AbInitioNoBackend
  | OutOfBounds

text \<open>\<open>t_j_particle\<close>: one (atom number, shift index) entry.\<close>

record t_j_particle =
  j :: int
  shift :: int

text \<open>\<open>struct_comp\<close>, the comparison handed to \<open>std::sort\<close>.\<close>

definition struct_comp :: "t_j_particle \<Rightarrow> t_j_particle \<Rightarrow> bool" where
  "struct_comp a b = (j a < j b)"

text \<open>
  The fields of \<open>t_nblist\<close> that qmmm.cpp reads (\<open>nl_shift\<close> is the field \<open>shift\<close> of
  the neighbour list, renamed because \<open>t_j_particle\<close> has a field of that name).
\<close>

record t_nblist =
  nri :: nat
  iinr :: "nat \<Rightarrow> int"
  nl_shift :: "nat \<Rightarrow> int"
  jindex :: "nat \<Rightarrow> nat"
  jjnr :: "nat \<Rightarrow> int"

text \<open>The fields of \<open>t_mdatoms\<close> that qmmm.cpp reads; \<open>chargeB\<close> may be a null pointer.\<close>

record t_mdatoms =
  nr :: nat
  bQM :: "int \<Rightarrow> bool"
  chargeA :: "int \<Rightarrow> real"
  chargeB :: "(int \<Rightarrow> real) option"

record t_QMrec =
  nrQMatoms :: nat
  xQM :: "rvec list"
  indexQM :: "int list"
  atomicnumberQM :: "int list"
  shiftQM :: "int list"
  QMcharge :: int
  multiplicity :: int
  QMmethod :: int
  QMbasis :: int
  nelectrons :: int
  bSH :: bool
  CASorbitals :: int
  CASelectrons :: int
  SAsteps :: int
  SAon :: real
  SAoff :: real
  nQMcpus :: int
  QMmem :: int
  accuracy :: int
  cpmcscf :: bool
  SAstep :: int
  SHbasis :: "int \<times> int \<times> int"

record t_MMrec =
  nrMMatoms :: nat
  xMM :: "rvec list"
  indexMM :: "int list"
  shiftMM :: "int list"
  MMcharges :: "real list"
  scalefactor :: real

datatype QMMMscheme = eQMMMschemenormal | eQMMMschemeoniom

record t_QMMMrec =
  QMMMscheme :: QMMMscheme
  nrQMlayers :: nat
  qm :: "t_QMrec list"
  mm :: t_MMrec

text \<open>
  Modelled from the spec: the macro \<open>PAR\<close> of mdtypes/commrec.h, which is not part of
  the sources at hand: more than one execution rank is requested.
\<close>

record t_commrec =
  nnodes :: int

definition PAR :: "t_commrec \<Rightarrow> bool" where
  "PAR cr = (1 < nnodes cr)"

text \<open>
  The fields of \<open>t_inputrec\<close> that qmmm.cpp reads. The per-group arrays of \<open>ir->opts\<close>
  carry the prefix \<open>opts_\<close>; \<open>ir_QMMMscheme\<close> and \<open>ir_scalefactor\<close> are the fields
  \<open>QMMMscheme\<close> and \<open>scalefactor\<close>.
\<close>

datatype cutoff_scheme = ecutsVERLET | ecutsGROUP

record t_inputrec =
  cutoff_scheme :: cutoff_scheme
  eI :: int
  ir_QMMMscheme :: QMMMscheme
  ir_scalefactor :: real
  ngQM :: nat
  opts_QMcharge :: "nat \<Rightarrow> int"
  opts_QMmult :: "nat \<Rightarrow> int"
  opts_QMmethod :: "nat \<Rightarrow> int"
  opts_QMbasis :: "nat \<Rightarrow> int"
  opts_bSH :: "nat \<Rightarrow> bool"
  opts_CASorbitals :: "nat \<Rightarrow> int"
  opts_CASelectrons :: "nat \<Rightarrow> int"
  opts_SAsteps :: "nat \<Rightarrow> int"
  opts_SAon :: "nat \<Rightarrow> real"
  opts_SAoff :: "nat \<Rightarrow> real"

text \<open>
  The topology \<open>gmx_mtop_t\<close>, as far as qmmm.cpp looks into it. The lookups it goes
  through are declared in topology headers that are not part of the sources at hand,
  so they are fields here:
  \<^item> \<open>getGroupType\<close>: the group number of an atom for
    \<open>SimulationAtomGroupType::QuantumMechanics\<close>;
  \<^item> \<open>atomnumber\<close>: \<open>atomtypes.atomnumber\<close> of the type of the atom that
    \<open>mtopGetAtomParameters\<close> finds;
  \<^item> \<open>ilistloop_all\<close>: what \<open>gmx_mtop_ilistloop_all_next\<close> yields, molecule by molecule:
    the atom offset and the \<open>iatoms\<close> of the \<open>F_VSITE2\<close> interaction list;
  \<^item> \<open>mtopGetMolblockIndex\<close>: the molecule block and the index within the molecule of
    an atom; \<open>molblock_type\<close> is \<open>molblock[molb].type\<close>;
  \<^item> \<open>moltype\<close>: \<open>moltype[t].atoms.atom[k]\<close>, with the two charges of \<open>t_atom\<close>.
\<close>

record t_atom =
  q :: real
  qB :: real

record gmx_mtop_t =
  natoms :: nat
  getGroupType :: "int \<Rightarrow> int"
  atomnumber :: "int \<Rightarrow> int"
  ilistloop_all :: "(int \<times> int list) list"
  mtopGetMolblockIndex :: "int \<Rightarrow> nat \<times> nat"
  molblock_type :: "nat \<Rightarrow> nat"
  moltype :: "nat \<Rightarrow> nat \<Rightarrow> t_atom"

text \<open>
  What qmmm.cpp takes from headers that are not part of the sources at hand: the shift
  index macros of pbcutil/ishift.h, the periodic distance routine of pbcutil/pbc.h
  (\<open>pbc_dx_aiuc\<close> here stands for the routine applied to the \<open>t_pbc\<close> that
  \<open>set_pbc_dd\<close> builds from the box), and the all-rank sum \<open>gmx_sumi\<close>. They are
  parameters of the model.
\<close>

record externals =
  XYZ2IS :: "int \<Rightarrow> int \<Rightarrow> int \<Rightarrow> int"
  IS2X :: "int \<Rightarrow> int"
  IS2Y :: "int \<Rightarrow> int"
  IS2Z :: "int \<Rightarrow> int"
  pbc_dx_aiuc :: "matrix \<Rightarrow> rvec \<Rightarrow> rvec \<Rightarrow> int"
  gmx_sumi :: "nat \<Rightarrow> int list \<Rightarrow> int list"

text \<open>
  \<open>std::sort\<close> is a parameter too. The C++ standard promises that the result is a
  rearrangement of the range that is ordered by the comparison; the order of entries
  the comparison does not separate is left open.
\<close>

definition std_sort_spec :: "(t_j_particle list \<Rightarrow> t_j_particle list) \<Rightarrow> bool" where
  "std_sort_spec srt =
     (\<forall>xs. mset (srt xs) = mset xs \<and> sorted_wrt (\<lambda>a b. \<not> struct_comp b a) (srt xs))"

text \<open>
  The build-time constants of config.h and the two values of the method enumeration
  of mdtypes/md_enums.h that qmmm.cpp compares with; \<open>NRAL_F_VSITE2\<close> is the value of
  \<open>NRAL(F_VSITE2)\<close>, \<open>EI_DYNAMICS\<close> the macro that tells the dynamics integrators.
  None of these headers is part of the sources at hand, so the values are parameters.
\<close>

record build =
  GMX_QMMM :: bool
  GMX_QMMM_MOPAC :: bool
  GMX_QMMM_GAMESS :: bool
  GMX_QMMM_GAUSSIAN :: bool
  GMX_QMMM_ORCA :: bool
  eQMmethodRHF :: int
  eQMmethodCASSCF :: int
  NRAL_F_VSITE2 :: nat
  EI_DYNAMICS :: "int \<Rightarrow> bool"

text \<open>
  The QM packages. A call fills the two buffers it is handed and returns the energy:
  the result is the energy with the contents of the buffers \<open>f\<close> and \<open>fshift\<close>
  after the call. The packages are parameters: a stub for each.
\<close>

type_synonym qm_result = "real \<times> (nat \<Rightarrow> rvec) \<times> (nat \<Rightarrow> rvec)"

record backends =
  call_mopac :: "t_QMrec \<Rightarrow> t_MMrec \<Rightarrow> qm_result"
  call_mopac_SH :: "t_QMrec \<Rightarrow> t_MMrec \<Rightarrow> qm_result"
  call_gamess :: "t_QMrec \<Rightarrow> t_MMrec \<Rightarrow> qm_result"
  call_gaussian :: "t_QMMMrec \<Rightarrow> t_QMrec \<Rightarrow> t_MMrec \<Rightarrow> qm_result"
  call_gaussian_SH :: "t_QMMMrec \<Rightarrow> t_QMrec \<Rightarrow> t_MMrec \<Rightarrow> qm_result"
  call_orca :: "t_QMMMrec \<Rightarrow> t_QMrec \<Rightarrow> t_MMrec \<Rightarrow> qm_result"

subsection \<open>call\_QMroutine and init\_QMroutine\<close>

definition call_QMroutine ::
  "build \<Rightarrow> backends \<Rightarrow> t_QMMMrec \<Rightarrow> t_QMrec \<Rightarrow> t_MMrec \<Rightarrow> error + qm_result" where
  "call_QMroutine bld be qmmm qmr mmr =
     (if QMmethod qmr < eQMmethodRHF bld \<and> nrMMatoms mmr = 0 then
        (if GMX_QMMM_MOPAC bld then
           (if bSH qmr then Inr (call_mopac_SH be qmr mmr) else Inr (call_mopac be qmr mmr))
         else Inl SemiEmpiricalOnlyMopac)
      else if bSH qmr \<and> QMmethod qmr = eQMmethodCASSCF bld then
        (if GMX_QMMM_GAUSSIAN bld then Inr (call_gaussian_SH be qmmm qmr mmr)
         else Inl SurfaceHoppingOnlyGaussian)
      else if GMX_QMMM_GAMESS bld then Inr (call_gamess be qmr mmr)
      else if GMX_QMMM_GAUSSIAN bld then Inr (call_gaussian be qmmm qmr mmr)
      else if GMX_QMMM_ORCA bld then Inr (call_orca be qmmm qmr mmr)
      else Inl AbInitioNoBackend)"

text \<open>
  \<open>init_QMroutine\<close> prepares the package for a record; in the model only its fatal
  errors remain (\<open>None\<close>: no error).
\<close>

definition init_QMroutine :: "build \<Rightarrow> t_QMrec \<Rightarrow> error option" where
  "init_QMroutine bld qmr =
     (if QMmethod qmr < eQMmethodRHF bld then
        (if GMX_QMMM_MOPAC bld then None else Some SemiEmpiricalOnlyMopac)
      else if GMX_QMMM_GAMESS bld then None
      else if GMX_QMMM_GAUSSIAN bld then None
      else if GMX_QMMM_ORCA bld then None
      else Some AbInitioNoBackend)"

text \<open>A counted loop whose body may fail: the first failure ends it.\<close>

primrec for_loop :: "(nat \<Rightarrow> 's \<Rightarrow> error + 's) \<Rightarrow> nat list \<Rightarrow> 's \<Rightarrow> error + 's" where
  "for_loop body [] s = Inr s"
| "for_loop body (i # is) s =
     (case body i s of Inl e \<Rightarrow> Inl e | Inr s' \<Rightarrow> for_loop body is s')"

subsection \<open>Setup: init\_QMrec, qmmmAtomIndices, removeQmmmAtomCharges, init\_QMMMrec\<close>

text \<open>
  \<open>init_QMrec\<close> fills a zeroed record for the group \<open>grpnr\<close>; \<open>nr\<close> is the size of
  \<open>atomarray\<close> at both calls.
\<close>

definition init_QMrec :: "nat \<Rightarrow> int list \<Rightarrow> gmx_mtop_t \<Rightarrow> t_inputrec \<Rightarrow> t_QMrec" where
  "init_QMrec grpnr atomarray mtop ir =
     \<lparr>nrQMatoms = length atomarray,
      xQM = replicate (length atomarray) (0, 0, 0),
      indexQM = atomarray,
      atomicnumberQM = map (atomnumber mtop) atomarray,
      shiftQM = replicate (length atomarray) 0,
      QMcharge = opts_QMcharge ir grpnr,
      multiplicity = opts_QMmult ir grpnr,
      QMmethod = opts_QMmethod ir grpnr,
      QMbasis = opts_QMbasis ir grpnr,
      nelectrons = sum_list (map (atomnumber mtop) atomarray) - opts_QMcharge ir grpnr,
      bSH = opts_bSH ir grpnr,
      CASorbitals = opts_CASorbitals ir grpnr,
      CASelectrons = opts_CASelectrons ir grpnr,
      SAsteps = opts_SAsteps ir grpnr,
      SAon = opts_SAon ir grpnr,
      SAoff = opts_SAoff ir grpnr,
      nQMcpus = 0, QMmem = 0, accuracy = 0, cpmcscf = False, SAstep = 0,
      SHbasis = (0, 0, 0)\<rparr>"

text \<open>
  The loop over one \<open>F_VSITE2\<close> list, \<open>for (j = 0; j < ilist.size(); j += nral1)\<close>: a
  virtual site in the QM group of both its constructing atoms is erased from the
  list of QM atoms. \<open>n\<close> is \<open>NRAL(F_VSITE2)\<close>, so that the stride is \<open>1 + n\<close>.
\<close>

function vsite2_loop ::
  "nat \<Rightarrow> (int \<Rightarrow> int) \<Rightarrow> int \<Rightarrow> int list \<Rightarrow> nat \<Rightarrow> int list \<Rightarrow> error + int list" where
  "vsite2_loop n grp atomOffset iatoms jj qmmmAtoms =
     (if jj < length iatoms then
        (if length iatoms \<le> jj + 2 then Inl OutOfBounds
         else
           let vsite = atomOffset + iatoms ! jj;
               ai = atomOffset + iatoms ! (jj + 1);
               aj = atomOffset + iatoms ! (jj + 2)
           in vsite2_loop n grp atomOffset iatoms (jj + (1 + n))
                (if grp vsite = grp ai \<and> grp vsite = grp aj
                 then filter (\<lambda>atom. atom \<noteq> vsite) qmmmAtoms else qmmmAtoms))
      else Inr qmmmAtoms)"
  by pat_completeness auto
termination
  by (relation "measure (\<lambda>(n, grp, atomOffset, iatoms, jj, qmmmAtoms). length iatoms - jj)") auto

declare vsite2_loop.simps [simp del]

primrec ilistloop ::
  "nat \<Rightarrow> (int \<Rightarrow> int) \<Rightarrow> (int \<times> int list) list \<Rightarrow> int list \<Rightarrow> error + int list" where
  "ilistloop n grp [] qmmmAtoms = Inr qmmmAtoms"
| "ilistloop n grp (b # bs) qmmmAtoms =
     (case vsite2_loop n grp (fst b) (snd b) 0 qmmmAtoms of
        Inl e \<Rightarrow> Inl e
      | Inr qmmmAtoms' \<Rightarrow> ilistloop n grp bs qmmmAtoms')"

text \<open>\<open>qmmmAtomIndices\<close>: one round of the loop over the QM groups, and the loop.\<close>

definition qmmm_group_step ::
  "build \<Rightarrow> t_inputrec \<Rightarrow> gmx_mtop_t \<Rightarrow> nat \<Rightarrow> int list \<Rightarrow> error + int list" where
  "qmmm_group_step bld ir mtop i qmmmAtoms =
     (let qmmmAtoms1 =
            qmmmAtoms @ filter (\<lambda>index. getGroupType mtop index = int i) (map int [0 ..< natoms mtop])
      in if ir_QMMMscheme ir = eQMMMschemeoniom
         then ilistloop (NRAL_F_VSITE2 bld) (getGroupType mtop) (ilistloop_all mtop) qmmmAtoms1
         else Inr qmmmAtoms1)"

definition qmmmAtomIndices :: "build \<Rightarrow> t_inputrec \<Rightarrow> gmx_mtop_t \<Rightarrow> error + int list" where
  "qmmmAtomIndices bld ir mtop = for_loop (qmmm_group_step bld ir mtop) [0 ..< ngQM ir] []"

text \<open>\<open>removeQmmmAtomCharges\<close>: both charges of every listed atom are set to zero.\<close>

definition remove_charge :: "int \<Rightarrow> gmx_mtop_t \<Rightarrow> gmx_mtop_t" where
  "remove_charge a mtop =
     (let molb = fst (mtopGetMolblockIndex mtop a);
          indexInMolecule = snd (mtopGetMolblockIndex mtop a);
          t = molblock_type mtop molb
      in mtop\<lparr>moltype := (moltype mtop)
           (t := (moltype mtop t)
              (indexInMolecule := (moltype mtop t indexInMolecule)\<lparr>q := 0, qB := 0\<rparr>))\<rparr>)"

definition removeQmmmAtomCharges :: "gmx_mtop_t \<Rightarrow> int list \<Rightarrow> gmx_mtop_t" where
  "removeQmmmAtomCharges mtop qmmmAtoms = fold remove_charge qmmmAtoms mtop"

text \<open>
  \<open>init_QMMMrec\<close>. The result is the record \<open>fr->qr\<close> it fills. In the normal scheme
  only \<open>qr->qm[0]\<close> is ever set, so the list of layers has that one entry. The last
  step, for a single layer, initialises the QM package.
\<close>

definition init_single_layer :: "build \<Rightarrow> t_QMMMrec \<Rightarrow> error + t_QMMMrec" where
  "init_single_layer bld qmmm =
     (if nrQMlayers qmmm = 1 then
        (if length (qm qmmm) = 0 then Inl OutOfBounds
         else if QMmethod (qm qmmm ! 0) < eQMmethodRHF bld then
           (if GMX_QMMM_MOPAC bld then Inr qmmm else Inl SemiEmpiricalOnlyMopac)
         else if GMX_QMMM_GAMESS bld then Inr qmmm
         else if GMX_QMMM_GAUSSIAN bld then Inr qmmm
         else if GMX_QMMM_ORCA bld then Inr qmmm
         else Inl AbInitioNoBackend)
      else Inr qmmm)"

definition init_QMMMrec ::
  "build \<Rightarrow> t_commrec \<Rightarrow> gmx_mtop_t \<Rightarrow> t_inputrec \<Rightarrow> error + t_QMMMrec" where
  "init_QMMMrec bld cr mtop ir =
     (if \<not> GMX_QMMM bld then Inl CompiledWithoutQMMM
      else if cutoff_scheme ir \<noteq> ecutsGROUP then Inl CutoffSchemeNotGroup
      else if \<not> EI_DYNAMICS bld (eI ir) then Inl OnlyWithDynamics
      else if PAR cr then Inl NotInParallel
      else
        case qmmmAtomIndices bld ir mtop of
          Inl e \<Rightarrow> Inl e
        | Inr qmmmAtoms \<Rightarrow>
            (if ir_QMMMscheme ir = eQMMMschemeoniom then
               init_single_layer bld
                 \<lparr>QMMMscheme = ir_QMMMscheme ir,
                  nrQMlayers = ngQM ir,
                  qm = map (\<lambda>i. init_QMrec i qmmmAtoms mtop ir) [0 ..< ngQM ir],
                  mm = \<lparr>nrMMatoms = 0, xMM = [], indexMM = [], shiftMM = [], MMcharges = [],
                        scalefactor = ir_scalefactor ir\<rparr>\<rparr>
             else if ngQM ir = 0 then Inl OutOfBounds
             else
               init_single_layer bld
                 \<lparr>QMMMscheme = ir_QMMMscheme ir,
                  nrQMlayers = 1,
                  qm = [init_QMrec 0 qmmmAtoms mtop ir],
                  mm = \<lparr>nrMMatoms = natoms mtop - length qmmmAtoms, xMM = [], indexMM = [],
                        shiftMM = [], MMcharges = [], scalefactor = ir_scalefactor ir\<rparr>\<rparr>))"

subsection \<open>update\_QMMMrec, normal scheme\<close>

text \<open>
  One row \<open>i\<close> of the pass over the neighbour list: the i-particle is stored with its
  shift, and every j-particle of the row is appended with the composed shift \<open>is\<close>.
\<close>

definition nblist_row ::
  "externals \<Rightarrow> matrix \<Rightarrow> (int \<Rightarrow> rvec) \<Rightarrow> t_nblist \<Rightarrow> nat \<Rightarrow>
   t_j_particle list \<times> t_j_particle list \<Rightarrow> t_j_particle list \<times> t_j_particle list" where
  "nblist_row ext box x nl i st =
     (let qm_i = fst st; mm_j = snd st;
          qm_i1 = qm_i[i := (qm_i ! i)\<lparr>j := iinr nl i\<rparr>];
          qm_i2 = (if i \<noteq> 0
                   then qm_i1[i := (qm_i1 ! i)
                          \<lparr>shift := pbc_dx_aiuc ext box (x (iinr nl 0)) (x (iinr nl i))\<rparr>]
                   else qm_i1);
          s = shift (qm_i2 ! i);
          is = XYZ2IS ext (IS2X ext (nl_shift nl i) + IS2X ext s)
                          (IS2Y ext (nl_shift nl i) + IS2Y ext s)
                          (IS2Z ext (nl_shift nl i) + IS2Z ext s)
      in (qm_i2,
          mm_j @ map (\<lambda>jj. \<lparr>j = jjnr nl jj, shift = is\<rparr>) [jindex nl i ..< jindex nl (Suc i)]))"

text \<open>
  The whole pass: \<open>qm_i_particles\<close> is allocated zeroed with \<open>nri\<close> entries, entry 0
  gets the shift \<open>XYZ2IS(0,0,0)\<close>, then the rows run in order.
\<close>

definition nblist_pass ::
  "externals \<Rightarrow> matrix \<Rightarrow> (int \<Rightarrow> rvec) \<Rightarrow> t_nblist \<Rightarrow>
   t_j_particle list \<times> t_j_particle list" where
  "nblist_pass ext box x nl =
     (let qm_i0 = replicate (nri nl) \<lparr>j = 0, shift = 0\<rparr>;
          qm_i = qm_i0[0 := (qm_i0 ! 0)\<lparr>shift := XYZ2IS ext 0 0 0\<rparr>]
      in fold (nblist_row ext box x nl) [0 ..< nri nl] (qm_i, []))"

text \<open>
  Removal of multiple entries from the sorted \<open>qm_i_particles\<close>, in place: the state is
  the array and the write position.
\<close>

definition qm_dedup_step ::
  "nat \<Rightarrow> t_j_particle list \<times> nat \<Rightarrow> t_j_particle list \<times> nat" where
  "qm_dedup_step i st =
     (let qa = fst st; n = snd st
      in if i = 0 \<or> j (qa ! i) \<noteq> j (qa ! (i - 1)) then (qa[n := qa ! i], Suc n) else (qa, n))"

definition qm_dedup :: "t_j_particle list \<Rightarrow> t_j_particle list \<times> nat" where
  "qm_dedup qa = fold qm_dedup_step [0 ..< length qa] (qa, 0)"

text \<open>
  Removal of multiple entries, QM atoms and chargeless atoms from the sorted
  \<open>mm_j_particles\<close>, in place.
\<close>

definition mm_keep :: "t_mdatoms \<Rightarrow> t_j_particle list \<Rightarrow> nat \<Rightarrow> bool" where
  "mm_keep md m i =
     ((i = 0 \<or> j (m ! i) \<noteq> j (m ! (i - 1)))
      \<and> \<not> bQM md (j (m ! i))
      \<and> (chargeA md (j (m ! i)) \<noteq> 0
         \<or> (case chargeB md of None \<Rightarrow> False | Some cB \<Rightarrow> cB (j (m ! i)) \<noteq> 0)))"

definition mm_filter_step ::
  "t_mdatoms \<Rightarrow> nat \<Rightarrow> t_j_particle list \<times> nat \<Rightarrow> t_j_particle list \<times> nat" where
  "mm_filter_step md i st =
     (let m = fst st; n = snd st
      in if mm_keep md m i then (m[n := m ! i], Suc n) else (m, n))"

definition mm_filter :: "t_mdatoms \<Rightarrow> t_j_particle list \<Rightarrow> t_j_particle list \<times> nat" where
  "mm_filter md m = fold (mm_filter_step md) [0 ..< length m] (m, 0)"

text \<open>
  The walk over the QM atoms that stores \<open>shiftQM\<close>: the state is \<open>k\<close>, the carried
  \<open>shift\<close> and the array \<open>shiftQM\<close>. \<open>qm_i_particles\<close> is read at \<open>k\<close> in every round,
  also when \<open>k\<close> has passed its last entry.
\<close>

definition shift_walk_step ::
  "t_j_particle list \<Rightarrow> int list \<Rightarrow> nat \<Rightarrow> nat \<times> int \<times> int list \<Rightarrow>
   error + nat \<times> int \<times> int list" where
  "shift_walk_step qa idx i st =
     (case st of (k, s, sq) \<Rightarrow>
        if length idx \<le> i \<or> length qa \<le> k \<or> length sq \<le> i then Inl OutOfBounds
        else if idx ! i = j (qa ! k) then Inr (Suc k, shift (qa ! k), sq[i := shift (qa ! k)])
        else Inr (k, s, sq[i := s]))"

definition shift_walk :: "t_j_particle list \<Rightarrow> t_QMrec \<Rightarrow> error + t_QMrec" where
  "shift_walk qa qmr =
     (case for_loop (shift_walk_step qa (indexQM qmr)) [0 ..< nrQMatoms qmr] (0, 0, shiftQM qmr) of
        Inl e \<Rightarrow> Inl e
      | Inr (k, s, sq) \<Rightarrow> Inr (qmr\<lparr>shiftQM := sq\<rparr>))"

text \<open>
  The branch for parallel execution: an array of \<open>2 * md->nr\<close> flags and shifts is
  filled, summed over the ranks, and read back in atom order. The quotient is C's
  division of \<open>int\<close>, which truncates.
\<close>

definition parallel_mark_step ::
  "nat \<Rightarrow> t_j_particle list \<Rightarrow> nat \<Rightarrow> int list \<Rightarrow> error + int list" where
  "parallel_mark_step n m i arr =
     (let a = j (m ! i)
      in if a < 0 \<or> length arr \<le> nat a + n then Inl OutOfBounds
         else Inr (arr[nat a := 1, nat a + n := shift (m ! i)]))"

definition parallel_collect_step ::
  "nat \<Rightarrow> int list \<Rightarrow> nat \<Rightarrow> int list \<times> int list \<Rightarrow> error + int list \<times> int list" where
  "parallel_collect_step n arr i st =
     (if length arr \<le> i then Inl OutOfBounds
      else if arr ! i \<noteq> 0
      then (if length arr \<le> i + n then Inl OutOfBounds
            else Inr (fst st @ [int i], snd st @ [(arr ! (i + n)) sdiv (arr ! i)]))
      else Inr st)"

definition parallel_MM ::
  "externals \<Rightarrow> t_mdatoms \<Rightarrow> t_j_particle list \<Rightarrow> error + int list \<times> int list" where
  "parallel_MM ext md m =
     (case for_loop (parallel_mark_step (nr md) m) [0 ..< length m] (replicate (2 * nr md) 0) of
        Inl e \<Rightarrow> Inl e
      | Inr arr \<Rightarrow>
          for_loop (parallel_collect_step (nr md) (gmx_sumi ext (nr md) arr)) [0 ..< nr md] ([], []))"

text \<open>\<open>update_QMMM_coord\<close>: the shifted coordinates of the QM and of the MM atoms.\<close>

definition update_QMMM_coord ::
  "(int \<Rightarrow> rvec) \<Rightarrow> (int \<Rightarrow> rvec) \<Rightarrow> t_QMrec \<Rightarrow> t_MMrec \<Rightarrow> error + t_QMrec \<times> t_MMrec" where
  "update_QMMM_coord x shift_vec qmr mmr =
     (if length (indexQM qmr) < nrQMatoms qmr \<or> length (shiftQM qmr) < nrQMatoms qmr
         \<or> length (xQM qmr) < nrQMatoms qmr
         \<or> length (indexMM mmr) < nrMMatoms mmr \<or> length (shiftMM mmr) < nrMMatoms mmr
         \<or> length (xMM mmr) < nrMMatoms mmr
      then Inl OutOfBounds
      else Inr
        (qmr\<lparr>xQM := map (\<lambda>i. x (indexQM qmr ! i) - shift_vec (shiftQM qmr ! i))
                        [0 ..< nrQMatoms qmr] @ drop (nrQMatoms qmr) (xQM qmr)\<rparr>,
         mmr\<lparr>xMM := map (\<lambda>i. x (indexMM mmr ! i) - shift_vec (shiftMM mmr ! i))
                        [0 ..< nrMMatoms mmr] @ drop (nrMMatoms mmr) (xMM mmr)\<rparr>))"

text \<open>The fields of \<open>t_forcerec\<close> that qmmm.cpp uses.\<close>

record t_forcerec =
  qr :: t_QMMMrec
  QMMMlist :: t_nblist
  shift_vec :: "int \<Rightarrow> rvec"

text \<open>
  The sorted, reduced lists of the normal scheme, as \<open>update_QMMMrec\<close> computes them
  from the two raw lists: the array \<open>qm_i_particles\<close> with the number of its valid
  entries, and the valid entries of \<open>mm_j_particles\<close>. \<open>std::sort\<close> is only called on a
  non-empty \<open>mm_j_particles\<close>.
\<close>

definition qm_sort_dedup ::
  "(t_j_particle list \<Rightarrow> t_j_particle list) \<Rightarrow> t_j_particle list \<Rightarrow> t_j_particle list \<times> nat" where
  "qm_sort_dedup srt qm_i = qm_dedup (srt qm_i)"

definition mm_sort_filter ::
  "(t_j_particle list \<Rightarrow> t_j_particle list) \<Rightarrow> t_mdatoms \<Rightarrow> t_j_particle list \<Rightarrow>
   t_j_particle list" where
  "mm_sort_filter srt md mm_j =
     (let sorted_j = (if 0 < length mm_j then srt mm_j else mm_j);
          res = mm_filter md sorted_j
      in take (snd res) (fst res))"

text \<open>
  The normal-scheme block of \<open>update_QMMMrec\<close> that runs when the neighbour list has
  rows: it returns the QM record with its new \<open>shiftQM\<close> and the reduced MM list.
\<close>

definition update_from_nblist ::
  "externals \<Rightarrow> (t_j_particle list \<Rightarrow> t_j_particle list) \<Rightarrow> matrix \<Rightarrow> (int \<Rightarrow> rvec) \<Rightarrow>
   t_mdatoms \<Rightarrow> t_nblist \<Rightarrow> t_QMrec \<Rightarrow> error + t_QMrec \<times> t_j_particle list" where
  "update_from_nblist ext srt box x md nl qmr =
     (let raw = nblist_pass ext box x nl;
          qm_i = fst (qm_sort_dedup srt (fst raw));
          mm_j = mm_sort_filter srt md (snd raw)
      in case shift_walk qm_i qmr of
           Inl e \<Rightarrow> Inl e
         | Inr qmr' \<Rightarrow> Inr (qmr', mm_j))"

text \<open>The ONIOM branch of \<open>update_QMMMrec\<close>, for one layer.\<close>

definition oniom_layer_shifts ::
  "externals \<Rightarrow> matrix \<Rightarrow> (int \<Rightarrow> rvec) \<Rightarrow> t_QMrec \<Rightarrow> error + t_QMrec" where
  "oniom_layer_shifts ext box x qmr =
     (if length (shiftQM qmr) = 0 \<or> length (shiftQM qmr) < nrQMatoms qmr
         \<or> (1 < nrQMatoms qmr \<and> length (indexQM qmr) < nrQMatoms qmr)
      then Inl OutOfBounds
      else Inr (qmr\<lparr>shiftQM :=
             XYZ2IS ext 0 0 0
             # map (\<lambda>i. pbc_dx_aiuc ext box (x (indexQM qmr ! 0)) (x (indexQM qmr ! i)))
                 [1 ..< nrQMatoms qmr]
             @ drop (max 1 (nrQMatoms qmr)) (shiftQM qmr)\<rparr>))"

definition oniom_layer_step ::
  "externals \<Rightarrow> matrix \<Rightarrow> (int \<Rightarrow> rvec) \<Rightarrow> (int \<Rightarrow> rvec) \<Rightarrow> nat \<Rightarrow> t_QMMMrec \<Rightarrow>
   error + t_QMMMrec" where
  "oniom_layer_step ext box x shv l qmmm =
     (if length (qm qmmm) \<le> l then Inl OutOfBounds
      else case oniom_layer_shifts ext box x (qm qmmm ! l) of
             Inl e \<Rightarrow> Inl e
           | Inr qmr \<Rightarrow>
               (case update_QMMM_coord x shv qmr (mm qmmm) of
                  Inl e \<Rightarrow> Inl e
                | Inr (qmr', mmr') \<Rightarrow> Inr (qmmm\<lparr>qm := (qm qmmm)[l := qmr'], mm := mmr'\<rparr>)))"

text \<open>
  \<open>update_QMMMrec\<close>. The result is the updated \<open>fr->qr\<close>.
\<close>

definition update_QMMMrec ::
  "build \<Rightarrow> externals \<Rightarrow> (t_j_particle list \<Rightarrow> t_j_particle list) \<Rightarrow>
   t_commrec \<Rightarrow> t_forcerec \<Rightarrow> (int \<Rightarrow> rvec) \<Rightarrow> t_mdatoms \<Rightarrow> matrix \<Rightarrow> error + t_QMMMrec" where
  "update_QMMMrec bld ext srt cr fr x md box =
     (if \<not> GMX_QMMM bld then Inl CompiledWithoutQMMM
      else if QMMMscheme (qr fr) = eQMMMschemenormal then
        (if length (qm (qr fr)) = 0 then Inl OutOfBounds
         else
           case (if nri (QMMMlist fr) \<noteq> 0
                 then update_from_nblist ext srt box x md (QMMMlist fr) (qm (qr fr) ! 0)
                 else Inr (qm (qr fr) ! 0, [])) of
             Inl e \<Rightarrow> Inl e
           | Inr (qmr, mm_j) \<Rightarrow>
               (case (if PAR cr then parallel_MM ext md mm_j
                      else Inr (map j mm_j, map shift mm_j)) of
                  Inl e \<Rightarrow> Inl e
                | Inr (idx, shf) \<Rightarrow>
                    (let mmr = (mm (qr fr))
                           \<lparr>nrMMatoms := length idx, indexMM := idx, shiftMM := shf,
                            xMM := take (length idx) (xMM (mm (qr fr)))
                                   @ replicate (length idx - length (xMM (mm (qr fr)))) (0, 0, 0),
                            MMcharges := map (\<lambda>a. chargeA md a * scalefactor (mm (qr fr))) idx\<rparr>
                     in case update_QMMM_coord x (shift_vec fr) qmr mmr of
                          Inl e \<Rightarrow> Inl e
                        | Inr (qmr', mmr') \<Rightarrow>
                            Inr ((qr fr)\<lparr>qm := (qm (qr fr))[0 := qmr'], mm := mmr'\<rparr>))))
      else
        for_loop (oniom_layer_step ext box x (shift_vec fr)) [0 ..< nrQMlayers (qr fr)]
          ((qr fr)\<lparr>mm := (mm (qr fr))\<lparr>nrMMatoms := 0\<rparr>\<rparr>))"

subsection \<open>calculate\_QMMM\<close>

text \<open>
  The accumulators \<open>fMM\<close> (per atom) and \<open>fshiftMM\<close> (per shift index) belong to the
  caller. One round of a scatter loop subtracts entry \<open>off + i\<close> of the buffer \<open>g\<close>
  from the force of atom \<open>idx[i]\<close> and adds entry \<open>off + i\<close> of \<open>gs\<close> to the shift
  force of shift \<open>shf[i]\<close>.
\<close>

type_synonym forces = "(int \<Rightarrow> rvec) \<times> (int \<Rightarrow> rvec)"

definition scatter_step ::
  "int list \<Rightarrow> int list \<Rightarrow> nat \<Rightarrow> (nat \<Rightarrow> rvec) \<Rightarrow> (nat \<Rightarrow> rvec) \<Rightarrow> nat \<Rightarrow> forces \<Rightarrow>
   error + forces" where
  "scatter_step idx shf off g gs i st =
     (if length idx \<le> i \<or> length shf \<le> i then Inl OutOfBounds
      else Inr ((fst st)(idx ! i := fst st (idx ! i) - g (off + i)),
                (snd st)(shf ! i := snd st (shf ! i) + gs (off + i))))"

text \<open>
  \<open>copy_QMrec\<close>: a new record with arrays of \<open>nrQMatoms\<close> entries; indices, atomic
  numbers and shifts are copied, the coordinates \<open>xQM\<close> stay as allocated (zero).
\<close>

definition copy_QMrec :: "t_QMrec \<Rightarrow> error + t_QMrec" where
  "copy_QMrec qmr =
     (if length (shiftQM qmr) < nrQMatoms qmr \<or> length (indexQM qmr) < nrQMatoms qmr
         \<or> length (atomicnumberQM qmr) < nrQMatoms qmr
      then Inl OutOfBounds
      else Inr (qmr\<lparr>xQM := replicate (nrQMatoms qmr) (0, 0, 0),
                    indexQM := take (nrQMatoms qmr) (indexQM qmr),
                    atomicnumberQM := take (nrQMatoms qmr) (atomicnumberQM qmr),
                    shiftQM := take (nrQMatoms qmr) (shiftQM qmr)\<rparr>))"

text \<open>
  The record \<open>qm2\<close> of the multi-layer branch: the copy of the next layer, with the
  first \<open>qm->nrQMatoms\<close> entries of its arrays and its charge overwritten by those of
  the current layer \<open>qm\<close>.
\<close>

definition low_level_QMrec :: "t_QMrec \<Rightarrow> t_QMrec \<Rightarrow> error + t_QMrec" where
  "low_level_QMrec qmr next_qmr =
     (case copy_QMrec next_qmr of
        Inl e \<Rightarrow> Inl e
      | Inr qm2 \<Rightarrow>
          (let n = nrQMatoms qmr
           in if nrQMatoms next_qmr < n \<or> length (xQM qmr) < n \<or> length (indexQM qmr) < n
                 \<or> length (atomicnumberQM qmr) < n \<or> length (shiftQM qmr) < n
              then Inl OutOfBounds
              else Inr (qm2\<lparr>nrQMatoms := n,
                     xQM := take n (xQM qmr) @ drop n (xQM qm2),
                     indexQM := take n (indexQM qmr) @ drop n (indexQM qm2),
                     atomicnumberQM := take n (atomicnumberQM qmr) @ drop n (atomicnumberQM qm2),
                     shiftQM := take n (shiftQM qmr) @ drop n (shiftQM qm2),
                     QMcharge := QMcharge qmr\<rparr>)))"

text \<open>
  The body of the loop over the layers but the last, for the layer \<open>i\<close>: the layer at
  its own level of theory, the layer at the level of the next one, and the scatter of
  the difference of the two gradients. The scatter loop counts with the variable \<open>i\<close> of
  the layer loop, so the result holds, besides the energy and the accumulators, the
  value that \<open>i\<close> has when the body ends: the number of atoms of the layer.
\<close>

definition oniom_layer_body ::
  "build \<Rightarrow> backends \<Rightarrow> t_QMMMrec \<Rightarrow> nat \<Rightarrow> real \<times> forces \<Rightarrow> error + nat \<times> real \<times> forces" where
  "oniom_layer_body bld be qmmm i st =
     (if length (qm qmmm) \<le> Suc i then Inl OutOfBounds
      else
        let qmr = qm qmmm ! i
        in case low_level_QMrec qmr (qm qmmm ! Suc i) of
             Inl e \<Rightarrow> Inl e
           | Inr qm2 \<Rightarrow>
               (case init_QMroutine bld qmr of
                  Some e \<Rightarrow> Inl e
                | None \<Rightarrow>
                    (case call_QMroutine bld be qmmm qmr (mm qmmm) of
                       Inl e \<Rightarrow> Inl e
                     | Inr (e1, forces1, fshift1) \<Rightarrow>
                         (case init_QMroutine bld qm2 of
                            Some e \<Rightarrow> Inl e
                          | None \<Rightarrow>
                              (case call_QMroutine bld be qmmm qm2 (mm qmmm) of
                                 Inl e \<Rightarrow> Inl e
                               | Inr (e2, forces2, fshift2) \<Rightarrow>
                                   (case for_loop
                                           (scatter_step (indexQM qmr) (shiftQM qmr) 0
                                              (\<lambda>a. forces1 a - forces2 a)
                                              (\<lambda>a. fshift1 a - fshift2 a))
                                           [0 ..< nrQMatoms qmr] (snd st) of
                                      Inl e \<Rightarrow> Inl e
                                    | Inr fs \<Rightarrow>
                                        Inr (nrQMatoms qmr, fst st + e1 - e2, fs)))))))"

text \<open>
  The loop over the layers but the last: \<open>for (i = 0; i < qr->nrQMlayers - 1; i++)\<close>.
  After a body has run, \<open>i\<close> is the value the body left, plus one. The loop need not
  end: not returning is the value \<open>None\<close>.
\<close>

partial_function (option) oniom_layers ::
  "build \<Rightarrow> backends \<Rightarrow> t_QMMMrec \<Rightarrow> nat \<Rightarrow> real \<times> forces \<Rightarrow> (error + real \<times> forces) option" where
  "oniom_layers bld be qmmm i st =
     (if Suc i < nrQMlayers qmmm then
        (case oniom_layer_body bld be qmmm i st of
           Inl e \<Rightarrow> Some (Inl e)
         | Inr (i', st') \<Rightarrow> oniom_layers bld be qmmm (Suc i') st')
      else Some (Inr st))"

text \<open>The last layer of the multi-layer branch.\<close>

definition oniom_last_layer ::
  "build \<Rightarrow> backends \<Rightarrow> t_QMMMrec \<Rightarrow> real \<times> forces \<Rightarrow> error + real \<times> forces" where
  "oniom_last_layer bld be qmmm st =
     (if nrQMlayers qmmm = 0 \<or> length (qm qmmm) < nrQMlayers qmmm then Inl OutOfBounds
      else
        let qmr = qm qmmm ! (nrQMlayers qmmm - 1)
        in case init_QMroutine bld qmr of
             Some e \<Rightarrow> Inl e
           | None \<Rightarrow>
               (case call_QMroutine bld be qmmm qmr (mm qmmm) of
                  Inl e \<Rightarrow> Inl e
                | Inr (e1, forces1, fshift1) \<Rightarrow>
                    (case for_loop (scatter_step (indexQM qmr) (shiftQM qmr) 0 forces1 fshift1)
                            [0 ..< nrQMatoms qmr] (snd st) of
                       Inl e \<Rightarrow> Inl e
                     | Inr fs \<Rightarrow> Inr (fst st + e1, fs))))"

text \<open>
  The branch for the normal scheme and for a single layer: one call, then the scatter
  of the QM entries and of the MM entries, which follow them in the buffers.
\<close>

definition single_layer ::
  "build \<Rightarrow> backends \<Rightarrow> t_QMMMrec \<Rightarrow> forces \<Rightarrow> error + real \<times> forces" where
  "single_layer bld be qmmm fs =
     (if length (qm qmmm) = 0 then Inl OutOfBounds
      else
        let qmr = qm qmmm ! 0; mmr = mm qmmm
        in case call_QMroutine bld be qmmm qmr mmr of
             Inl e \<Rightarrow> Inl e
           | Inr (e1, forces1, fshift1) \<Rightarrow>
               (case for_loop (scatter_step (indexQM qmr) (shiftQM qmr) 0 forces1 fshift1)
                       [0 ..< nrQMatoms qmr] fs of
                  Inl e \<Rightarrow> Inl e
                | Inr fs1 \<Rightarrow>
                    (case for_loop
                            (scatter_step (indexMM mmr) (shiftMM mmr) (nrQMatoms qmr)
                               forces1 fshift1)
                            [0 ..< nrMMatoms mmr] fs1 of
                       Inl e \<Rightarrow> Inl e
                     | Inr fs2 \<Rightarrow> Inr (e1, fs2))))"

text \<open>
  \<open>calculate_QMMM\<close>: the result is the returned energy \<open>QMener\<close> with the accumulators
  of \<open>forceWithShiftForces\<close> after the call.
\<close>

definition calculate_QMMM ::
  "build \<Rightarrow> backends \<Rightarrow> forces \<Rightarrow> t_QMMMrec \<Rightarrow> (error + real \<times> forces) option" where
  "calculate_QMMM bld be fs qmmm =
     (if \<not> GMX_QMMM bld then Some (Inl CompiledWithoutQMMM)
      else if QMMMscheme qmmm = eQMMMschemenormal \<or> nrQMlayers qmmm = 1
      then Some (single_layer bld be qmmm fs)
      else
        (case oniom_layers bld be qmmm 0 (0, fs) of
           None \<Rightarrow> None
         | Some (Inl e) \<Rightarrow> Some (Inl e)
         | Some (Inr st) \<Rightarrow> Some (oniom_last_layer bld be qmmm st)))"

subsection \<open>Notions for the proofs\<close>

text \<open>
  The two in-place reductions are instances of one loop: entry \<open>i\<close> of the array is
  copied to the write position when a test \<open>K\<close> on the array at \<open>i\<close> holds. \<open>kept\<close> is
  the list of the entries of the untouched array that pass the test, and a test is
  local when it looks at the entries \<open>i\<close> and \<open>i - 1\<close> only.
\<close>

definition compact_step :: "('a list \<Rightarrow> nat \<Rightarrow> bool) \<Rightarrow> nat \<Rightarrow> 'a list \<times> nat \<Rightarrow> 'a list \<times> nat" where
  "compact_step K i st =
     (if K (fst st) i then ((fst st)[snd st := fst st ! i], Suc (snd st)) else st)"

definition kept :: "('a list \<Rightarrow> nat \<Rightarrow> bool) \<Rightarrow> 'a list \<Rightarrow> nat \<Rightarrow> 'a list" where
  "kept K a k = map (nth a) (filter (K a) [0 ..< k])"

definition local_pred :: "('a list \<Rightarrow> nat \<Rightarrow> bool) \<Rightarrow> bool" where
  "local_pred K = (\<forall>a b i. a ! i = b ! i \<longrightarrow> (0 < i \<longrightarrow> a ! (i - 1) = b ! (i - 1)) \<longrightarrow> K a i = K b i)"

text \<open>Entry \<open>i\<close> is the first of its run of equal atom numbers.\<close>

definition qm_first :: "t_j_particle list \<Rightarrow> nat \<Rightarrow> bool" where
  "qm_first a i = (i = 0 \<or> j (a ! i) \<noteq> j (a ! (i - 1)))"

text \<open>The test on an atom of the MM list: not a QM atom, and charged in a state.\<close>

definition mm_visible :: "t_mdatoms \<Rightarrow> int \<Rightarrow> bool" where
  "mm_visible md a =
     (\<not> bQM md a
      \<and> (chargeA md a \<noteq> 0 \<or> (case chargeB md of None \<Rightarrow> False | Some cB \<Rightarrow> cB a \<noteq> 0)))"

text \<open>The atoms of the QM group \<open>i\<close>, in atom order: what one scan of \<open>AtomRange\<close> appends.\<close>

definition group_atoms :: "gmx_mtop_t \<Rightarrow> nat \<Rightarrow> int list" where
  "group_atoms mtop i = filter (\<lambda>index. getGroupType mtop index = int i) (map int [0 ..< natoms mtop])"

text \<open>The atoms collected after the groups below \<open>k\<close>.\<close>

definition qm_atoms_inv :: "gmx_mtop_t \<Rightarrow> nat \<Rightarrow> int list \<Rightarrow> bool" where
  "qm_atoms_inv mtop k atoms =
     (distinct atoms
      \<and> (\<forall>a \<in> set atoms. 0 \<le> a \<and> a < int (natoms mtop)
            \<and> 0 \<le> getGroupType mtop a \<and> getGroupType mtop a < int k))"

text \<open>The three refusals of setup.\<close>

definition setup_refusals :: "(error + t_QMMMrec) set" where
  "setup_refusals = {Inl CutoffSchemeNotGroup, Inl OnlyWithDynamics, Inl NotInParallel}"

text \<open>
  What a scatter loop of \<open>n\<close> rounds takes from the force of the atom \<open>a\<close>, and what it
  adds to the shift force of the shift index \<open>s\<close>.
\<close>

definition scattered :: "int list \<Rightarrow> nat \<Rightarrow> (nat \<Rightarrow> rvec) \<Rightarrow> nat \<Rightarrow> int \<Rightarrow> rvec" where
  "scattered idx off g n a = (\<Sum>i | i < n \<and> idx ! i = a. g (off + i))"

text \<open>The two charges of the atom \<open>a\<close>, read the way \<open>removeQmmmAtomCharges\<close> finds it.\<close>

definition atom_of :: "gmx_mtop_t \<Rightarrow> int \<Rightarrow> t_atom" where
  "atom_of mtop a =
     moltype mtop (molblock_type mtop (fst (mtopGetMolblockIndex mtop a)))
       (snd (mtopGetMolblockIndex mtop a))"

text \<open>
  The composition of two shift indices, as the pass over the neighbour list computes
  \<open>is\<close>: componentwise sum of the two image vectors.
\<close>

definition compose_shift :: "externals \<Rightarrow> int \<Rightarrow> int \<Rightarrow> int" where
  "compose_shift ext a b =
     XYZ2IS ext (IS2X ext a + IS2X ext b) (IS2Y ext a + IS2Y ext b) (IS2Z ext a + IS2Z ext b)"

text \<open>The entry of the i-particle of row \<open>i\<close>, and the entries of its j-particles.\<close>

definition qm_i_entry :: "externals \<Rightarrow> matrix \<Rightarrow> (int \<Rightarrow> rvec) \<Rightarrow> t_nblist \<Rightarrow> nat \<Rightarrow> t_j_particle" where
  "qm_i_entry ext box x nl i =
     \<lparr>j = iinr nl i,
      shift = (if i = 0 then XYZ2IS ext 0 0 0
               else pbc_dx_aiuc ext box (x (iinr nl 0)) (x (iinr nl i)))\<rparr>"

definition mm_j_entries :: "externals \<Rightarrow> matrix \<Rightarrow> (int \<Rightarrow> rvec) \<Rightarrow> t_nblist \<Rightarrow> nat \<Rightarrow> t_j_particle list" where
  "mm_j_entries ext box x nl i =
     map (\<lambda>jj. \<lparr>j = jjnr nl jj,
                shift = compose_shift ext (nl_shift nl i) (shift (qm_i_entry ext box x nl i))\<rparr>)
       [jindex nl i ..< jindex nl (Suc i)]"





text \<open>
  The energy that the ONIOM extrapolation of the specification assigns to a record:
  the sum over the layers but the last of the energy of the layer at its own level of
  theory minus its energy at the level of the next layer, plus the energy of the last
  layer. The energy of a record is the energy that \<open>call_QMroutine\<close> returns for it.
\<close>

definition energy_of :: "build \<Rightarrow> backends \<Rightarrow> t_QMMMrec \<Rightarrow> t_QMrec \<Rightarrow> real" where
  "energy_of bld be qmmm qmr =
     (case call_QMroutine bld be qmmm qmr (mm qmmm) of Inl e \<Rightarrow> 0 | Inr res \<Rightarrow> fst res)"

definition energy_low :: "build \<Rightarrow> backends \<Rightarrow> t_QMMMrec \<Rightarrow> nat \<Rightarrow> real" where
  "energy_low bld be qmmm i =
     (case low_level_QMrec (qm qmmm ! i) (qm qmmm ! Suc i) of
        Inl e \<Rightarrow> 0
      | Inr qm2 \<Rightarrow> energy_of bld be qmmm qm2)"

definition oniom_energy_spec :: "build \<Rightarrow> backends \<Rightarrow> t_QMMMrec \<Rightarrow> real" where
  "oniom_energy_spec bld be qmmm =
     (\<Sum>i < nrQMlayers qmmm - 1. energy_of bld be qmmm (qm qmmm ! i) - energy_low bld be qmmm i)
     + energy_of bld be qmmm (qm qmmm ! (nrQMlayers qmmm - 1))"

subsection \<open>A run: setup and dynamics steps\<close>

text \<open>
  Modelled from the spec: the caller of the functions of qmmm.cpp (the runner and the
  force routine are not part of the sources at hand). Setup runs \<open>init_QMMMrec\<close> and,
  for the normal scheme, zeroes the charges of the QM atoms in the topology
  (``For the Normal scheme, additionally zero the classical point charge (both
  charge-state variants) of every QM atom in the underlying topology''); every
  dynamics step runs the update and then the combiner, in that order (``AtomClassifier
  runs once at setup; EnvironmentUpdater and ONIOMCombiner run once per dynamics
  step''). The state of a run is the topology with the QM/MM record.
\<close>

record run_state =
  topology :: gmx_mtop_t
  qmmmrec :: t_QMMMrec

record step_input =
  step_nblist :: t_nblist
  step_shift_vec :: "int \<Rightarrow> rvec"
  step_x :: "int \<Rightarrow> rvec"
  step_md :: t_mdatoms
  step_box :: matrix
  step_forces :: forces

definition run_setup ::
  "build \<Rightarrow> t_commrec \<Rightarrow> gmx_mtop_t \<Rightarrow> t_inputrec \<Rightarrow> error + run_state" where
  "run_setup bld cr mtop ir =
     (case init_QMMMrec bld cr mtop ir of
        Inl e \<Rightarrow> Inl e
      | Inr qmmm \<Rightarrow>
          (if ir_QMMMscheme ir = eQMMMschemenormal then
             (case qmmmAtomIndices bld ir mtop of
                Inl e \<Rightarrow> Inl e
              | Inr qmmmAtoms \<Rightarrow>
                  Inr \<lparr>topology = removeQmmmAtomCharges mtop qmmmAtoms, qmmmrec = qmmm\<rparr>)
           else Inr \<lparr>topology = mtop, qmmmrec = qmmm\<rparr>))"

definition run_step ::
  "build \<Rightarrow> externals \<Rightarrow> (t_j_particle list \<Rightarrow> t_j_particle list) \<Rightarrow> backends \<Rightarrow> t_commrec \<Rightarrow>
   step_input \<Rightarrow> run_state \<Rightarrow> (error + run_state) option" where
  "run_step bld ext srt be cr inp st =
     (case update_QMMMrec bld ext srt cr
             \<lparr>qr = qmmmrec st, QMMMlist = step_nblist inp, shift_vec = step_shift_vec inp\<rparr>
             (step_x inp) (step_md inp) (step_box inp) of
        Inl e \<Rightarrow> Some (Inl e)
      | Inr qmmm \<Rightarrow>
          (case calculate_QMMM bld be (step_forces inp) qmmm of
             None \<Rightarrow> None
           | Some (Inl e) \<Rightarrow> Some (Inl e)
           | Some (Inr res) \<Rightarrow> Some (Inr (st\<lparr>qmmmrec := qmmm\<rparr>))))"

primrec run_steps ::
  "build \<Rightarrow> externals \<Rightarrow> (t_j_particle list \<Rightarrow> t_j_particle list) \<Rightarrow> backends \<Rightarrow> t_commrec \<Rightarrow>
   step_input list \<Rightarrow> run_state \<Rightarrow> (error + run_state) option" where
  "run_steps bld ext srt be cr [] st = Some (Inr st)"
| "run_steps bld ext srt be cr (inp # inps) st =
     (case run_step bld ext srt be cr inp st of
        None \<Rightarrow> None
      | Some (Inl e) \<Rightarrow> Some (Inl e)
      | Some (Inr st') \<Rightarrow> run_steps bld ext srt be cr inps st')"

subsection \<open>Example data\<close>

text \<open>
  Per-atom data of eight atoms: atoms 1 and 2 are QM atoms, atom 7 has no charge, every
  other atom has the charge 1/2; there is no B state.
\<close>

definition sample_md :: t_mdatoms where
  "sample_md =
     \<lparr>nr = 8, bQM = (\<lambda>a. a = 1 \<or> a = 2),
      chargeA = (\<lambda>a. if a = 7 then 0 else 1 / 2), chargeB = None\<rparr>"

text \<open>A raw list of MM candidates: atom 5 comes twice, with two shifts.\<close>

definition sample_raw :: "t_j_particle list" where
  "sample_raw =
     [\<lparr>j = 3, shift = 22\<rparr>, \<lparr>j = 5, shift = 22\<rparr>, \<lparr>j = 2, shift = 22\<rparr>,
      \<lparr>j = 5, shift = 23\<rparr>, \<lparr>j = 7, shift = 23\<rparr>]"

text \<open>
  Shift indices as pbcutil/ishift.h of GROMACS numbers them (five images along x, three
  along y and z, the central one is 22), a distance routine that only looks along x,
  and a sum over one rank.
\<close>

definition sample_ext :: externals where
  "sample_ext =
     \<lparr>XYZ2IS = (\<lambda>x y z. 5 * (3 * (z + 1) + y + 1) + x + 2),
      IS2X = (\<lambda>iv. iv mod 5 - 2),
      IS2Y = (\<lambda>iv. (iv div 5) mod 3 - 1),
      IS2Z = (\<lambda>iv. iv div 15 - 1),
      pbc_dx_aiuc = (\<lambda>box x1 x2.
         if fst (fst box) / 2 < fst x1 - fst x2 then 21
         else if fst x1 - fst x2 < - (fst (fst box) / 2) then 23 else 22),
      gmx_sumi = (\<lambda>n arr. arr)\<rparr>"

text \<open>A build with Gaussian only; methods below 2 are the semi-empirical ones.\<close>

definition sample_bld :: build where
  "sample_bld =
     \<lparr>GMX_QMMM = True, GMX_QMMM_MOPAC = False, GMX_QMMM_GAMESS = False,
      GMX_QMMM_GAUSSIAN = True, GMX_QMMM_ORCA = False,
      eQMmethodRHF = 2, eQMmethodCASSCF = 7, NRAL_F_VSITE2 = 3,
      EI_DYNAMICS = (\<lambda>e. e = 0 \<or> e = 1 \<or> e = 2)\<rparr>"

text \<open>
  A cubic box of edge 3, atoms along x: atom 2 sits at 2.9, every other atom \<open>a\<close> at
  \<open>a / 10\<close>.
\<close>

definition sample_box :: matrix where
  "sample_box = ((3, 0, 0), (0, 3, 0), (0, 0, 3))"

definition sample_x :: "int \<Rightarrow> rvec" where
  "sample_x a = (if a = 2 then (29 / 10, 0, 0) else (real_of_int a / 10, 0, 0))"

text \<open>
  A neighbour list with two rows: the QM atom 1 with the MM candidates 3, 5, 2 and the
  QM atom 2 with the candidates 5, 7.
\<close>

definition sample_nl :: t_nblist where
  "sample_nl =
     \<lparr>nri = 2,
      iinr = (\<lambda>i. [1, 2] ! i),
      nl_shift = (\<lambda>i. [22, 23] ! i),
      jindex = (\<lambda>i. [0, 3, 5] ! i),
      jjnr = (\<lambda>i. [3, 5, 2, 5, 7] ! i)\<rparr>"

text \<open>The records of a normal-scheme run with the QM atoms 1 and 2, before and after an update.\<close>

definition sample_QMrec :: t_QMrec where
  "sample_QMrec =
     \<lparr>nrQMatoms = 2, xQM = [(0, 0, 0), (0, 0, 0)], indexQM = [1, 2],
      atomicnumberQM = [6, 8], shiftQM = [0, 0], QMcharge = 0, multiplicity = 1,
      QMmethod = 2, QMbasis = 0, nelectrons = 14, bSH = False, CASorbitals = 0,
      CASelectrons = 0, SAsteps = 0, SAon = 0, SAoff = 0, nQMcpus = 0, QMmem = 0,
      accuracy = 0, cpmcscf = False, SAstep = 0, SHbasis = (0, 0, 0)\<rparr>"

definition sample_qr :: t_QMMMrec where
  "sample_qr =
     \<lparr>QMMMscheme = eQMMMschemenormal, nrQMlayers = 1, qm = [sample_QMrec],
      mm = \<lparr>nrMMatoms = 6, xMM = [], indexMM = [], shiftMM = [], MMcharges = [],
            scalefactor = 1\<rparr>\<rparr>"

definition sample_fr :: t_forcerec where
  "sample_fr =
     \<lparr>qr = sample_qr, QMMMlist = sample_nl,
      shift_vec = (\<lambda>s. (3 * real_of_int (s mod 5 - 2), 3 * real_of_int ((s div 5) mod 3 - 1),
                         3 * real_of_int (s div 15 - 1)))\<rparr>"

definition sample_qr_updated :: t_QMMMrec where
  "sample_qr_updated =
     sample_qr
       \<lparr>qm := [sample_QMrec\<lparr>xQM := [(1 / 10, 0, 0), (- (1 / 10), 0, 0)], shiftQM := [22, 23]\<rparr>],
        mm := \<lparr>nrMMatoms = 2, xMM = [(3 / 10, 0, 0), (1 / 2, 0, 0)], indexMM = [3, 5],
               shiftMM = [22, 22], MMcharges = [1 / 2, 1 / 2], scalefactor = 1\<rparr>\<rparr>"

text \<open>A topology of eight atoms in one molecule; the atoms 1 and 2 form the QM group 0.\<close>

definition sample_mtop :: gmx_mtop_t where
  "sample_mtop =
     \<lparr>natoms = 8,
      getGroupType = (\<lambda>a. if a = 1 \<or> a = 2 then 0 else 1),
      atomnumber = (\<lambda>a. if a = 1 then 6 else 8),
      ilistloop_all = [(0, [])],
      mtopGetMolblockIndex = (\<lambda>a. (0, nat a)),
      molblock_type = (\<lambda>m. 0),
      moltype = (\<lambda>t k. \<lparr>q = (if k = 7 then 0 else 1 / 2), qB = (if k = 7 then 0 else 1 / 2)\<rparr>)\<rparr>"

text \<open>Run parameters: the normal scheme with one QM group, group cut-off, integrator 0.\<close>

definition sample_ir :: t_inputrec where
  "sample_ir =
     \<lparr>cutoff_scheme = ecutsGROUP, eI = 0, ir_QMMMscheme = eQMMMschemenormal,
      ir_scalefactor = 1, ngQM = 1,
      opts_QMcharge = (\<lambda>g. 0), opts_QMmult = (\<lambda>g. 1), opts_QMmethod = (\<lambda>g. 2),
      opts_QMbasis = (\<lambda>g. 0), opts_bSH = (\<lambda>g. False), opts_CASorbitals = (\<lambda>g. 0),
      opts_CASelectrons = (\<lambda>g. 0), opts_SAsteps = (\<lambda>g. 0), opts_SAon = (\<lambda>g. 0),
      opts_SAoff = (\<lambda>g. 0)\<rparr>"

text \<open>
  A stub for the QM packages: the energy depends on the method of the record it is
  handed (10 for method 4, 4 for method 3, 7 for any other), entry \<open>i\<close> of the force
  buffer is \<open>i + 1\<close> times the energy along x, every entry of the shift buffer is the
  energy along x.
\<close>

definition sample_energy :: "int \<Rightarrow> real" where
  "sample_energy m = (if m = 4 then 10 else if m = 3 then 4 else 7)"

definition sample_call :: "t_QMrec \<Rightarrow> t_MMrec \<Rightarrow> qm_result" where
  "sample_call qmr mmr =
     (sample_energy (QMmethod qmr),
      (\<lambda>i. (sample_energy (QMmethod qmr) * (1 + real i), 0, 0)),
      (\<lambda>i. (sample_energy (QMmethod qmr), 0, 0)))"

definition sample_be :: backends where
  "sample_be =
     \<lparr>call_mopac = sample_call, call_mopac_SH = sample_call, call_gamess = sample_call,
      call_gaussian = (\<lambda>qmmm. sample_call), call_gaussian_SH = (\<lambda>qmmm. sample_call),
      call_orca = (\<lambda>qmmm. sample_call)\<rparr>"

text \<open>The input of one dynamics step for the example run.\<close>

definition sample_inp :: step_input where
  "sample_inp =
     \<lparr>step_nblist = sample_nl, step_shift_vec = shift_vec sample_fr, step_x = sample_x,
      step_md = sample_md, step_box = sample_box, step_forces = (\<lambda>a. 0, \<lambda>s. 0)\<rparr>"




definition sample_QMrec3 :: t_QMrec where
  "sample_QMrec3 =
     sample_QMrec\<lparr>nrQMatoms := 3, xQM := [(0, 0, 0), (0, 0, 0), (0, 0, 0)], indexQM := [1, 2, 3],
       atomicnumberQM := [6, 8, 8], shiftQM := [0, 0, 0], nelectrons := 22\<rparr>"





text \<open>
  An ONIOM run with three QM groups, the atoms 1, 2 and 3, with the methods 4, 3 and 2:
  the topology, the run parameters and the record that setup builds.
\<close>

definition sample_mtop3 :: gmx_mtop_t where
  "sample_mtop3 =
     sample_mtop\<lparr>getGroupType := (\<lambda>a. if a = 1 then 0 else if a = 2 then 1 else if a = 3 then 2 else 3)\<rparr>"

definition sample_ir3 :: t_inputrec where
  "sample_ir3 =
     sample_ir\<lparr>ir_QMMMscheme := eQMMMschemeoniom, ngQM := 3, opts_QMmethod := (\<lambda>g. 4 - int g)\<rparr>"

definition sample_qr3 :: t_QMMMrec where
  "sample_qr3 =
     \<lparr>QMMMscheme = eQMMMschemeoniom, nrQMlayers = 3,
      qm = [sample_QMrec3\<lparr>QMmethod := 4\<rparr>, sample_QMrec3\<lparr>QMmethod := 3\<rparr>,
            sample_QMrec3\<lparr>QMmethod := 2\<rparr>],
      mm = \<lparr>nrMMatoms = 0, xMM = [], indexMM = [], shiftMM = [], MMcharges = [],
            scalefactor = 1\<rparr>\<rparr>"

section \<open>Properties\<close>

subsection \<open>The in-place reductions\<close>

lemma compact_fold:
  assumes K: "local_pred K" and k: "k \<le> length a"
  shows "\<exists>a' n. fold (compact_step K) [0 ..< k] (a, 0) = (a', n) \<and> n \<le> k \<and> length a' = length a
           \<and> take n a' = kept K a k
           \<and> (\<forall>p. n \<le> p \<longrightarrow> p < length a \<longrightarrow> a' ! p = a ! p)
           \<and> (0 < k \<longrightarrow> a' ! (k - 1) = a ! (k - 1))"
  using k
proof (induction k)
  case 0
  show ?case by (simp add: kept_def)
next
  case (Suc k)
  then obtain a' n where IH: "fold (compact_step K) [0 ..< k] (a, 0) = (a', n)" "n \<le> k"
      "length a' = length a" "take n a' = kept K a k"
      "\<forall>p. n \<le> p \<longrightarrow> p < length a \<longrightarrow> a' ! p = a ! p" "0 < k \<longrightarrow> a' ! (k - 1) = a ! (k - 1)"
    by auto
  have kl: "k < length a" using Suc.prems by simp
  have ak: "a' ! k = a ! k" using IH(2,5) kl by simp
  have KK: "K a' k = K a k"
    using K ak IH(6) unfolding local_pred_def by blast
  show ?case
  proof (cases "K a k")
    case True
    have f: "fold (compact_step K) [0 ..< Suc k] (a, 0) = (a'[n := a ! k], Suc n)"
      using IH(1) KK True ak by (simp add: compact_step_def)
    have t: "take (Suc n) (a'[n := a ! k]) = kept K a (Suc k)"
      using IH(2,3,4) kl True by (simp add: kept_def take_Suc_conv_app_nth)
    have p: "\<forall>p. Suc n \<le> p \<longrightarrow> p < length a \<longrightarrow> (a'[n := a ! k]) ! p = a ! p"
      using IH(5) by simp
    have l: "(a'[n := a ! k]) ! k = a ! k"
      using IH(2,3) ak kl by (cases "n = k") simp_all
    show ?thesis using f t p l IH(2,3) by simp
  next
    case False
    have f: "fold (compact_step K) [0 ..< Suc k] (a, 0) = (a', n)"
      using IH(1) KK False by (simp add: compact_step_def)
    have t: "take n a' = kept K a (Suc k)"
      using IH(4) False by (simp add: kept_def)
    show ?thesis using f t IH(2,3,5) ak by auto
  qed
qed

lemma for_loop_append:
  "for_loop body (xs @ ys) s =
     (case for_loop body xs s of Inl e \<Rightarrow> Inl e | Inr s' \<Rightarrow> for_loop body ys s')"
  by (induction xs arbitrary: s) (auto split: sum.splits)


lemma mm_filter_step_compact: "mm_filter_step md = compact_step (mm_keep md)"
  by (auto simp: fun_eq_iff mm_filter_step_def compact_step_def Let_def)


lemma local_mm_keep: "local_pred (mm_keep md)"
  unfolding local_pred_def mm_keep_def by (intro allI impI) (cases "chargeB md"; auto)


lemma mm_filter_kept:
  "take (snd (mm_filter md a)) (fst (mm_filter md a)) = kept (mm_keep md) a (length a)"
  using compact_fold [OF local_mm_keep, of "length a" a md]
  unfolding mm_filter_def mm_filter_step_compact by auto

lemma kept_Suc: "kept K a (Suc k) = kept K a k @ (if K a k then [a ! k] else [])"
  by (simp add: kept_def)


lemma kept_strict:
  assumes s: "sorted (map j a)" and f: "\<And>i. K a i \<Longrightarrow> qm_first a i" and k: "k \<le> length a"
  shows "sorted_wrt (<) (map j (kept K a k))
         \<and> (\<forall>e \<in> set (kept K a k). 0 < k \<and> j e \<le> j (a ! (k - 1)))"
  using k
proof (induction k)
  case 0
  show ?case by (simp add: kept_def)
next
  case (Suc k)
  then have IH: "sorted_wrt (<) (map j (kept K a k))"
      "\<forall>e \<in> set (kept K a k). 0 < k \<and> j e \<le> j (a ! (k - 1))" and kl: "k < length a"
    by auto
  have mono: "0 < k \<Longrightarrow> j (a ! (k - 1)) \<le> j (a ! k)"
    using s kl by (simp add: sorted_iff_nth_mono)
  show ?case
  proof (cases "K a k")
    case True
    have lt: "\<forall>e \<in> set (kept K a k). j e < j (a ! k)"
    proof
      fix e assume e: "e \<in> set (kept K a k)"
      then have "0 < k" "j e \<le> j (a ! (k - 1))" using IH(2) by auto
      moreover have "j (a ! k) \<noteq> j (a ! (k - 1))"
        using f [OF True] \<open>0 < k\<close> by (simp add: qm_first_def)
      ultimately show "j e < j (a ! k)" using mono by simp
    qed
    show ?thesis
      using IH(1) lt True by (auto simp: kept_Suc sorted_wrt_append less_imp_le)
  next
    case False
    have "\<forall>e \<in> set (kept K a k). j e \<le> j (a ! k)"
      using IH(2) mono by fastforce
    then show ?thesis using IH(1) False by (simp add: kept_Suc)
  qed
qed

lemma kept_all:
  assumes "\<And>i. i < k \<Longrightarrow> K a i" and "k \<le> length a"
  shows "kept K a k = take k a"
  using assms
proof (induction k)
  case 0
  show ?case by (simp add: kept_def)
next
  case (Suc k)
  then show ?case by (simp add: kept_Suc take_Suc_conv_app_nth)
qed

lemma std_sort_sorted: "std_sort_spec srt \<Longrightarrow> sorted (map j (srt xs))"
  by (simp add: std_sort_spec_def struct_comp_def sorted_map not_less)

lemma std_sort_mset: "std_sort_spec srt \<Longrightarrow> mset (srt xs) = mset xs"
  by (simp add: std_sort_spec_def)

lemma std_sort_strict_id:
  assumes srt: "std_sort_spec srt" and r: "sorted_wrt (<) (map j r)"
  shows "srt r = r"
proof -
  have d: "distinct (map j r)" using r strict_sorted_iff by blast
  have m: "mset (map j (srt r)) = mset (map j r)"
    using std_sort_mset [OF srt, of r] by (metis mset_map)
  have "map j (srt r) = map j r"
    using std_sort_sorted [OF srt, of r] r m d
    by (metis properties_for_sort strict_sorted_iff sorted_sort_id)
  moreover have "inj_on j (set (srt r) \<union> set r)"
    using d std_sort_mset [OF srt, of r] by (metis distinct_map mset_eq_setD sup.idem)
  ultimately show ?thesis by (simp add: inj_on_map_eq_map)
qed

lemma mm_keep_iff: "mm_keep md a i = (qm_first a i \<and> mm_visible md (j (a ! i)))"
  by (simp add: mm_keep_def qm_first_def mm_visible_def)

lemma mm_sort_filter_kept:
  "mm_sort_filter srt md raw =
     kept (mm_keep md) (if raw = [] then raw else srt raw) (length (if raw = [] then raw else srt raw))"
  by (simp add: mm_sort_filter_def Let_def mm_filter_kept)

lemma mm_sort_filter_strict:
  assumes "std_sort_spec srt"
  shows "sorted_wrt (<) (map j (mm_sort_filter srt md raw))"
proof (cases "raw = []")
  case True
  then show ?thesis by (simp add: mm_sort_filter_kept kept_def)
next
  case False
  then show ?thesis
    using kept_strict [of "srt raw" "mm_keep md" "length (srt raw)"]
      std_sort_sorted [OF assms, of raw]
    by (simp add: mm_sort_filter_kept mm_keep_iff)
qed

lemma mm_sort_filter_visible:
  "e \<in> set (mm_sort_filter srt md raw) \<Longrightarrow> mm_visible md (j e)"
  by (auto simp: mm_sort_filter_kept kept_def mm_keep_iff split: if_splits)

lemma mm_sort_filter_idem:
  assumes "std_sort_spec srt"
  shows "mm_sort_filter srt md (mm_sort_filter srt md raw) = mm_sort_filter srt md raw"
proof -
  define r where "r = mm_sort_filter srt md raw"
  have st: "sorted_wrt (<) (map j r)"
    unfolding r_def by (rule mm_sort_filter_strict [OF assms])
  have vis: "\<And>i. i < length r \<Longrightarrow> mm_visible md (j (r ! i))"
    unfolding r_def using mm_sort_filter_visible nth_mem by blast
  have fst: "\<And>i. i < length r \<Longrightarrow> qm_first r i"
  proof -
    fix i assume i: "i < length r"
    show "qm_first r i"
    proof (cases "i = 0")
      case True
      then show ?thesis by (simp add: qm_first_def)
    next
      case False
      then have "j (r ! (i - 1)) < j (r ! i)"
        using st i by (simp add: sorted_wrt_iff_nth_less)
      then show ?thesis by (simp add: qm_first_def)
    qed
  qed
  have id: "srt r = r" by (rule std_sort_strict_id [OF assms st])
  have "mm_sort_filter srt md r = kept (mm_keep md) r (length r)"
    using id by (simp add: mm_sort_filter_kept)
  also have "\<dots> = take (length r) r"
    by (rule kept_all) (simp_all add: mm_keep_iff vis fst)
  finally show ?thesis by (simp add: r_def)
qed

lemma update_normal_indexMM:
  assumes "\<not> PAR cr" and "QMMMscheme (qr fr) = eQMMMschemenormal"
    and "update_QMMMrec bld ext srt cr fr x md box = Inr qmmm'"
  shows "indexMM (mm qmmm') =
           map j (if nri (QMMMlist fr) \<noteq> 0
                  then mm_sort_filter srt md (snd (nblist_pass ext box x (QMMMlist fr))) else [])"
  using assms
  by (auto simp: update_QMMMrec_def update_from_nblist_def update_QMMM_coord_def Let_def
      split: if_splits sum.splits prod.splits)

text \<open>Insertion sort by the atom number is one sort that meets the promise of \<open>std::sort\<close>.\<close>

lemma std_sort_spec_sort_key: "std_sort_spec (sort_key j)"
proof -
  have "sorted_wrt (\<lambda>a b. \<not> struct_comp b a) (sort_key j xs)" for xs
    using sorted_sort_key [of j xs] by (simp only: sorted_map struct_comp_def not_less)
  then show ?thesis by (simp add: std_sort_spec_def)
qed

lemma sample_mm_pass:
  "mm_sort_filter (sort_key j) sample_md sample_raw
     = [\<lparr>j = 3, shift = 22\<rparr>, \<lparr>j = 5, shift = 22\<rparr>]"
  by code_simp

subsection \<open>The reduction of the MM list is idempotent\<close>

text \<open>
  C10. The pass over the MM candidates (sort by atom number, drop every entry whose atom
  number equals that of the entry before it, drop QM atoms, drop atoms whose charge is
  zero in both states), applied to its own result, returns that result again, for every
  raw list and every sort that meets the promise of \<open>std::sort\<close>.
\<close>

theorem mm_pass_idempotent:
  "std_sort_spec srt \<Longrightarrow>
   mm_sort_filter srt md (mm_sort_filter srt md raw) = mm_sort_filter srt md raw"
  by (rule mm_sort_filter_idem)

theorem mm_pass_idempotent_witness:
  "mm_sort_filter (sort_key j) sample_md sample_raw
     = [\<lparr>j = 3, shift = 22\<rparr>, \<lparr>j = 5, shift = 22\<rparr>]
   \<and> mm_sort_filter (sort_key j) sample_md [\<lparr>j = 3, shift = 22\<rparr>, \<lparr>j = 5, shift = 22\<rparr>]
       = [\<lparr>j = 3, shift = 22\<rparr>, \<lparr>j = 5, shift = 22\<rparr>]"
  using mm_pass_idempotent [OF std_sort_spec_sort_key, of sample_md sample_raw]
  by (simp add: sample_mm_pass)

subsection \<open>The MM environment after an update\<close>

lemma sample_update:
  "update_QMMMrec sample_bld sample_ext (sort_key j) \<lparr>nnodes = 1\<rparr> sample_fr sample_x sample_md
       sample_box = Inr sample_qr_updated"
  by code_simp

text \<open>
  C4. After an update step of the normal scheme (one rank, as setup demands, and any
  sort that meets the promise of \<open>std::sort\<close>), the list \<open>indexMM\<close> of the MM environment
  has no atom twice, no atom flagged as QM in \<open>md->bQM\<close>, and no atom whose charge is zero
  in both states (in the one state, when there is no B state).
\<close>

theorem update_normal_MM_invariant:
  assumes "std_sort_spec srt" and "\<not> PAR cr" and "QMMMscheme (qr fr) = eQMMMschemenormal"
    and "update_QMMMrec bld ext srt cr fr x md box = Inr qmmm'"
  shows "distinct (indexMM (mm qmmm'))
         \<and> (\<forall>a \<in> set (indexMM (mm qmmm')).
               \<not> bQM md a
               \<and> \<not> (chargeA md a = 0 \<and> (case chargeB md of None \<Rightarrow> True | Some cB \<Rightarrow> cB a = 0)))"
proof -
  define r where "r = (if nri (QMMMlist fr) \<noteq> 0
     then mm_sort_filter srt md (snd (nblist_pass ext box x (QMMMlist fr))) else [])"
  have idx: "indexMM (mm qmmm') = map j r"
    unfolding r_def by (rule update_normal_indexMM [OF assms(2,3,4)])
  have "sorted_wrt (<) (map j r)"
    unfolding r_def using mm_sort_filter_strict [OF assms(1)] by simp
  then have d: "distinct (map j r)" using strict_sorted_iff by blast
  have v: "\<forall>e \<in> set r. mm_visible md (j e)"
    unfolding r_def using mm_sort_filter_visible by (auto split: if_splits)
  have "\<forall>a \<in> set (map j r). \<not> bQM md a
      \<and> \<not> (chargeA md a = 0 \<and> (case chargeB md of None \<Rightarrow> True | Some cB \<Rightarrow> cB a = 0))"
    using v by (auto simp: mm_visible_def split: option.splits)
  then show ?thesis using d idx by simp
qed

theorem update_normal_MM_invariant_witness:
  "update_QMMMrec sample_bld sample_ext (sort_key j) \<lparr>nnodes = 1\<rparr> sample_fr sample_x sample_md
       sample_box = Inr sample_qr_updated
   \<and> indexMM (mm sample_qr_updated) = [3, 5]
   \<and> distinct (indexMM (mm sample_qr_updated))
   \<and> \<not> bQM sample_md 3 \<and> \<not> bQM sample_md 5
   \<and> chargeA sample_md 3 \<noteq> 0 \<and> chargeA sample_md 5 \<noteq> 0"
proof -
  have p: "\<not> PAR \<lparr>nnodes = 1\<rparr>" by (simp add: PAR_def)
  have n: "QMMMscheme (qr sample_fr) = eQMMMschemenormal"
    by (simp add: sample_fr_def sample_qr_def)
  have i: "indexMM (mm sample_qr_updated) = [3, 5]"
    by (simp add: sample_qr_updated_def)
  show ?thesis
    using update_normal_MM_invariant [OF std_sort_spec_sort_key p n sample_update] sample_update i
    by (simp add: sample_md_def)
qed

subsection \<open>Setup\<close>

lemma vsite2_loop_result:
  "(\<exists>P. vsite2_loop n grp off ia jj atoms = Inr (filter P atoms))
   \<or> vsite2_loop n grp off ia jj atoms = Inl OutOfBounds"
proof (induction n grp off ia jj atoms rule: vsite2_loop.induct)
  case (1 n grp atomOffset iatoms jj qmmmAtoms)
  show ?case
  proof (cases "jj < length iatoms \<and> \<not> length iatoms \<le> jj + 2")
    case False
    then show ?thesis
      by (subst vsite2_loop.simps, subst (2) vsite2_loop.simps) (auto intro: exI [of _ "\<lambda>x. True"])
  next
    case True
    define v where "v = atomOffset + iatoms ! jj"
    define c where "c = (grp v = grp (atomOffset + iatoms ! (jj + 1))
                         \<and> grp v = grp (atomOffset + iatoms ! (jj + 2)))"
    define nxt where "nxt = (if c then filter (\<lambda>atom. atom \<noteq> v) qmmmAtoms else qmmmAtoms)"
    have step: "vsite2_loop n grp atomOffset iatoms jj qmmmAtoms
                = vsite2_loop n grp atomOffset iatoms (jj + (1 + n)) nxt"
      using True by (subst vsite2_loop.simps) (simp add: Let_def nxt_def c_def v_def)
    have IH: "(\<exists>P. vsite2_loop n grp atomOffset iatoms (jj + (1 + n)) nxt = Inr (filter P nxt))
               \<or> vsite2_loop n grp atomOffset iatoms (jj + (1 + n)) nxt = Inl OutOfBounds"
      using "1.IH" [OF _ _ refl refl refl] True unfolding nxt_def c_def v_def by simp
    have "\<exists>Q. nxt = filter Q qmmmAtoms"
      unfolding nxt_def by (cases c) (auto intro: exI [of _ "\<lambda>x. True"])
    then obtain Q where Q: "nxt = filter Q qmmmAtoms" by blast
    show ?thesis
      using IH unfolding step Q by auto
  qed
qed

lemma ilistloop_result:
  "(\<exists>P. ilistloop n grp bs atoms = Inr (filter P atoms)) \<or> ilistloop n grp bs atoms = Inl OutOfBounds"
proof (induction bs arbitrary: atoms)
  case Nil
  show ?case by (auto intro: exI [of _ "\<lambda>x. True"])
next
  case (Cons b bs)
  from vsite2_loop_result [of n grp "fst b" "snd b" 0 atoms]
  show ?case
  proof
    assume "\<exists>P. vsite2_loop n grp (fst b) (snd b) 0 atoms = Inr (filter P atoms)"
    then obtain P where P: "vsite2_loop n grp (fst b) (snd b) 0 atoms = Inr (filter P atoms)" by blast
    from Cons.IH [of "filter P atoms"] show ?thesis
      by (auto simp: P)
  next
    assume "vsite2_loop n grp (fst b) (snd b) 0 atoms = Inl OutOfBounds"
    then show ?thesis by simp
  qed
qed

lemma qmmm_group_step_result:
  "(\<exists>P. qmmm_group_step bld ir mtop i atoms = Inr (filter P (atoms @ group_atoms mtop i)))
   \<or> qmmm_group_step bld ir mtop i atoms = Inl OutOfBounds"
proof (cases "ir_QMMMscheme ir = eQMMMschemeoniom")
  case True
  then show ?thesis
    using ilistloop_result [of "NRAL_F_VSITE2 bld" "getGroupType mtop" "ilistloop_all mtop"
        "atoms @ group_atoms mtop i"]
    by (simp add: qmmm_group_step_def group_atoms_def Let_def)
next
  case False
  then have "qmmm_group_step bld ir mtop i atoms = Inr (filter (\<lambda>x. True) (atoms @ group_atoms mtop i))"
    by (simp add: qmmm_group_step_def group_atoms_def Let_def)
  then show ?thesis by blast
qed

lemma qmmm_group_step_normal:
  "ir_QMMMscheme ir \<noteq> eQMMMschemeoniom \<Longrightarrow>
   qmmm_group_step bld ir mtop i atoms = Inr (atoms @ group_atoms mtop i)"
  by (simp add: qmmm_group_step_def group_atoms_def Let_def)

lemma distinct_group_atoms: "distinct (group_atoms mtop i)"
  by (simp add: group_atoms_def distinct_map)

lemma qm_atoms_inv_step:
  assumes "qm_atoms_inv mtop k atoms"
  shows "qm_atoms_inv mtop (Suc k) (filter P (atoms @ group_atoms mtop k))"
proof -
  have d: "distinct (atoms @ group_atoms mtop k)"
    using assms distinct_group_atoms [of mtop k]
    by (auto simp: qm_atoms_inv_def group_atoms_def)
  have m: "\<forall>a \<in> set (atoms @ group_atoms mtop k). 0 \<le> a \<and> a < int (natoms mtop)
            \<and> 0 \<le> getGroupType mtop a \<and> getGroupType mtop a < int (Suc k)"
    using assms by (auto simp: qm_atoms_inv_def group_atoms_def)
  have "distinct (filter P (atoms @ group_atoms mtop k))"
    using d by (rule distinct_filter)
  moreover have "set (filter P (atoms @ group_atoms mtop k)) \<subseteq> set (atoms @ group_atoms mtop k)"
    by (rule filter_is_subset)
  ultimately show ?thesis
    using m unfolding qm_atoms_inv_def by blast
qed

lemma qmmm_groups_upto:
  "(\<exists>atoms. for_loop (qmmm_group_step bld ir mtop) [0 ..< k] [] = Inr atoms \<and> qm_atoms_inv mtop k atoms)
   \<or> for_loop (qmmm_group_step bld ir mtop) [0 ..< k] [] = Inl OutOfBounds"
proof (induction k)
  case 0
  show ?case by (simp add: qm_atoms_inv_def)
next
  case (Suc k)
  from Suc show ?case
  proof
    assume "\<exists>atoms. for_loop (qmmm_group_step bld ir mtop) [0 ..< k] [] = Inr atoms
                     \<and> qm_atoms_inv mtop k atoms"
    then obtain atoms where a: "for_loop (qmmm_group_step bld ir mtop) [0 ..< k] [] = Inr atoms"
        "qm_atoms_inv mtop k atoms" by blast
    from qmmm_group_step_result [of bld ir mtop k atoms] show ?thesis
      using a qm_atoms_inv_step [OF a(2)] by (auto simp: for_loop_append)
  next
    assume "for_loop (qmmm_group_step bld ir mtop) [0 ..< k] [] = Inl OutOfBounds"
    then show ?thesis by (simp add: for_loop_append)
  qed
qed

lemma qmmmAtomIndices_result:
  "(\<exists>atoms. qmmmAtomIndices bld ir mtop = Inr atoms \<and> qm_atoms_inv mtop (ngQM ir) atoms)
   \<or> qmmmAtomIndices bld ir mtop = Inl OutOfBounds"
  unfolding qmmmAtomIndices_def by (rule qmmm_groups_upto)

lemma qmmm_groups_upto_normal:
  "ir_QMMMscheme ir \<noteq> eQMMMschemeoniom \<Longrightarrow>
   for_loop (qmmm_group_step bld ir mtop) [0 ..< k] [] = Inr (concat (map (group_atoms mtop) [0 ..< k]))"
  by (induction k) (simp_all add: for_loop_append qmmm_group_step_normal)

lemma qmmmAtomIndices_normal:
  "ir_QMMMscheme ir \<noteq> eQMMMschemeoniom \<Longrightarrow>
   qmmmAtomIndices bld ir mtop = Inr (concat (map (group_atoms mtop) [0 ..< ngQM ir]))"
  unfolding qmmmAtomIndices_def by (rule qmmm_groups_upto_normal)

lemma init_single_layer_result:
  "init_single_layer bld qmmm = Inr qmmm
   \<or> init_single_layer bld qmmm \<in> {Inl OutOfBounds, Inl SemiEmpiricalOnlyMopac, Inl AbInitioNoBackend}"
  by (simp add: init_single_layer_def)

lemma init_QMMMrec_no_refusal:
  assumes "GMX_QMMM bld"
  shows "(init_QMMMrec bld cr mtop ir \<in> setup_refusals)
         = (PAR cr \<or> cutoff_scheme ir \<noteq> ecutsGROUP \<or> \<not> EI_DYNAMICS bld (eI ir))"
proof (cases "PAR cr \<or> cutoff_scheme ir \<noteq> ecutsGROUP \<or> \<not> EI_DYNAMICS bld (eI ir)")
  case True
  then show ?thesis using assms by (auto simp: init_QMMMrec_def setup_refusals_def)
next
  case False
  have s: "init_single_layer bld qmmm \<notin> setup_refusals" for qmmm
    using init_single_layer_result [of bld qmmm] by (auto simp: setup_refusals_def)
  have "init_QMMMrec bld cr mtop ir \<notin> setup_refusals"
    using qmmmAtomIndices_result [of bld ir mtop]
  proof
    assume "qmmmAtomIndices bld ir mtop = Inl OutOfBounds"
    then show ?thesis using False assms by (simp add: init_QMMMrec_def setup_refusals_def)
  next
    assume "\<exists>atoms. qmmmAtomIndices bld ir mtop = Inr atoms \<and> qm_atoms_inv mtop (ngQM ir) atoms"
    then obtain atoms where a: "qmmmAtomIndices bld ir mtop = Inr atoms" by blast
    show ?thesis
      using False assms a s by (simp add: init_QMMMrec_def) (simp add: setup_refusals_def)
  qed
  then show ?thesis using False by simp
qed

lemma sample_init:
  "init_QMMMrec sample_bld \<lparr>nnodes = 1\<rparr> sample_mtop sample_ir = Inr sample_qr"
  by code_simp

lemma sample_init_parallel:
  "init_QMMMrec sample_bld \<lparr>nnodes = 2\<rparr> sample_mtop sample_ir = Inl NotInParallel"
  by code_simp

text \<open>
  C5. With QM/MM support compiled in, \<open>init_QMMMrec\<close> ends with one of its three fatal
  errors on the run parameters (cut-off scheme not group, integrator not a dynamics
  one, more than one rank) exactly when more than one rank is requested, or the
  cut-off scheme is not the group scheme, or the integrator is not a dynamics
  integrator; otherwise it raises none of the three. The checks are the first thing
  setup does.
\<close>

theorem init_QMMMrec_refuses:
  assumes "GMX_QMMM bld"
  shows "(init_QMMMrec bld cr mtop ir
            \<in> {Inl CutoffSchemeNotGroup, Inl OnlyWithDynamics, Inl NotInParallel})
         = (PAR cr \<or> cutoff_scheme ir \<noteq> ecutsGROUP \<or> \<not> EI_DYNAMICS bld (eI ir))"
  using init_QMMMrec_no_refusal [OF assms] by (simp add: setup_refusals_def)

theorem init_QMMMrec_refuses_witness:
  "init_QMMMrec sample_bld \<lparr>nnodes = 2\<rparr> sample_mtop sample_ir = Inl NotInParallel
   \<and> PAR \<lparr>nnodes = 2\<rparr>
   \<and> init_QMMMrec sample_bld \<lparr>nnodes = 1\<rparr> sample_mtop sample_ir = Inr sample_qr
   \<and> \<not> PAR \<lparr>nnodes = 1\<rparr> \<and> cutoff_scheme sample_ir = ecutsGROUP
   \<and> EI_DYNAMICS sample_bld (eI sample_ir)"
proof -
  have b: "GMX_QMMM sample_bld" by (simp add: sample_bld_def)
  have c: "cutoff_scheme sample_ir = ecutsGROUP" by (simp add: sample_ir_def)
  have d: "EI_DYNAMICS sample_bld (eI sample_ir)" by (simp add: sample_ir_def sample_bld_def)
  show ?thesis
    using init_QMMMrec_refuses [OF b, of "\<lparr>nnodes = 2\<rparr>" sample_mtop sample_ir]
      init_QMMMrec_refuses [OF b, of "\<lparr>nnodes = 1\<rparr>" sample_mtop sample_ir]
    by (simp add: sample_init sample_init_parallel PAR_def c d)
qed

subsection \<open>The normal scheme of calculate\_QMMM\<close>

lemma scattered_0 [simp]: "scattered idx off g 0 a = 0"
  by (simp add: scattered_def)

lemma scattered_Suc:
  "scattered idx off g (Suc n) a
     = (if idx ! n = a then scattered idx off g n a + g (off + n) else scattered idx off g n a)"
proof -
  have fin: "finite {i. i < n \<and> idx ! i = a}" by simp
  have "{i. i < Suc n \<and> idx ! i = a}
          = (if idx ! n = a then insert n {i. i < n \<and> idx ! i = a} else {i. i < n \<and> idx ! i = a})"
    by (auto simp: less_Suc_eq)
  then show ?thesis
    unfolding scattered_def using fin by (simp add: add.commute)
qed

lemma scatter_loop:
  assumes "n \<le> length idx" and "n \<le> length shf"
  shows "for_loop (scatter_step idx shf off g gs) [0 ..< n] (f, fs)
           = Inr (\<lambda>a. f a - scattered idx off g n a, \<lambda>s. fs s + scattered shf off gs n s)"
  using assms
proof (induction n)
  case 0
  show ?case by simp
next
  case (Suc n)
  then have IH: "for_loop (scatter_step idx shf off g gs) [0 ..< n] (f, fs)
           = Inr (\<lambda>a. f a - scattered idx off g n a, \<lambda>s. fs s + scattered shf off gs n s)"
    and n: "n < length idx" "n < length shf" by simp_all
  have a: "(\<lambda>a. f a - scattered idx off g n a)
             (idx ! n := f (idx ! n) - scattered idx off g n (idx ! n) - g (off + n))
           = (\<lambda>a. f a - scattered idx off g (Suc n) a)"
    by (auto simp: fun_eq_iff scattered_Suc diff_diff_eq)
  have b: "(\<lambda>s. fs s + scattered shf off gs n s)
             (shf ! n := fs (shf ! n) + scattered shf off gs n (shf ! n) + gs (off + n))
           = (\<lambda>s. fs s + scattered shf off gs (Suc n) s)"
    by (auto simp: fun_eq_iff scattered_Suc add.assoc)
  show ?case
  proof -
    have "for_loop (scatter_step idx shf off g gs) [0 ..< Suc n] (f, fs)
            = scatter_step idx shf off g gs n
                (\<lambda>a. f a - scattered idx off g n a, \<lambda>s. fs s + scattered shf off gs n s)"
      by (simp add: for_loop_append IH split: sum.splits)
    also have "\<dots> = Inr (\<lambda>a. f a - scattered idx off g (Suc n) a,
                          \<lambda>s. fs s + scattered shf off gs (Suc n) s)"
      using n by (simp add: scatter_step_def a b)
    finally show ?thesis .
  qed
qed

lemma calculate_QMMM_single:
  assumes "GMX_QMMM bld" and "QMMMscheme qmmm = eQMMMschemenormal"
    and "qm qmmm \<noteq> []"
    and "nrQMatoms (qm qmmm ! 0) \<le> length (indexQM (qm qmmm ! 0))"
    and "nrQMatoms (qm qmmm ! 0) \<le> length (shiftQM (qm qmmm ! 0))"
    and "nrMMatoms (mm qmmm) \<le> length (indexMM (mm qmmm))"
    and "nrMMatoms (mm qmmm) \<le> length (shiftMM (mm qmmm))"
    and "call_QMroutine bld be qmmm (qm qmmm ! 0) (mm qmmm) = Inr (E, g, gs)"
  shows "calculate_QMMM bld be (fMM, fshiftMM) qmmm =
           Some (Inr (E,
             (\<lambda>a. fMM a
                   - scattered (indexQM (qm qmmm ! 0)) 0 g (nrQMatoms (qm qmmm ! 0)) a
                   - scattered (indexMM (mm qmmm)) (nrQMatoms (qm qmmm ! 0)) g (nrMMatoms (mm qmmm)) a),
             (\<lambda>s. fshiftMM s
                   + scattered (shiftQM (qm qmmm ! 0)) 0 gs (nrQMatoms (qm qmmm ! 0)) s
                   + scattered (shiftMM (mm qmmm)) (nrQMatoms (qm qmmm ! 0)) gs (nrMMatoms (mm qmmm)) s)))"
  using assms
  by (simp add: calculate_QMMM_def single_layer_def Let_def scatter_loop)

lemma sample_call_normal:
  "call_QMroutine sample_bld sample_be sample_qr_updated (qm sample_qr_updated ! 0) (mm sample_qr_updated)
     = Inr (7, (\<lambda>i. (7 * (1 + real i), 0, 0)), (\<lambda>i. (7, 0, 0)))"
  by (simp add: call_QMroutine_def sample_bld_def sample_be_def sample_qr_updated_def
      sample_qr_def sample_QMrec_def sample_call_def sample_energy_def)

lemma sample_calculate:
  "\<exists>f' fs'. calculate_QMMM sample_bld sample_be (\<lambda>a. 0, \<lambda>s. 0) sample_qr_updated
              = Some (Inr (7, f', fs'))"
proof -
  have "GMX_QMMM sample_bld" by (simp add: sample_bld_def)
  moreover have "QMMMscheme sample_qr_updated = eQMMMschemenormal"
    by (simp add: sample_qr_updated_def sample_qr_def)
  moreover have "qm sample_qr_updated \<noteq> []"
    "nrQMatoms (qm sample_qr_updated ! 0) \<le> length (indexQM (qm sample_qr_updated ! 0))"
    "nrQMatoms (qm sample_qr_updated ! 0) \<le> length (shiftQM (qm sample_qr_updated ! 0))"
    "nrMMatoms (mm sample_qr_updated) \<le> length (indexMM (mm sample_qr_updated))"
    "nrMMatoms (mm sample_qr_updated) \<le> length (shiftMM (mm sample_qr_updated))"
    by (simp_all add: sample_qr_updated_def sample_qr_def sample_QMrec_def)
  ultimately show ?thesis
    using calculate_QMMM_single [OF _ _ _ _ _ _ _ sample_call_normal, of "\<lambda>a. 0" "\<lambda>s. 0"]
    by blast
qed



subsection \<open>The charges of the QM atoms\<close>

lemma remove_charge_lookup [simp]:
  "mtopGetMolblockIndex (remove_charge a mtop) = mtopGetMolblockIndex mtop"
  "molblock_type (remove_charge a mtop) = molblock_type mtop"
  "natoms (remove_charge a mtop) = natoms mtop"
  "getGroupType (remove_charge a mtop) = getGroupType mtop"
  by (simp_all add: remove_charge_def Let_def)

lemma remove_charge_atom:
  "atom_of (remove_charge a mtop) b =
     (if molblock_type mtop (fst (mtopGetMolblockIndex mtop b))
           = molblock_type mtop (fst (mtopGetMolblockIndex mtop a))
         \<and> snd (mtopGetMolblockIndex mtop b) = snd (mtopGetMolblockIndex mtop a)
      then (atom_of mtop b)\<lparr>q := 0, qB := 0\<rparr> else atom_of mtop b)"
  by (simp add: atom_of_def remove_charge_def Let_def)

lemma remove_charge_zero: "q (atom_of (remove_charge a mtop) a) = 0 \<and> qB (atom_of (remove_charge a mtop) a) = 0"
  by (simp add: remove_charge_atom)

lemma remove_charge_keeps_zero:
  "q (atom_of mtop b) = 0 \<and> qB (atom_of mtop b) = 0 \<Longrightarrow>
   q (atom_of (remove_charge a mtop) b) = 0 \<and> qB (atom_of (remove_charge a mtop) b) = 0"
  by (simp add: remove_charge_atom)

lemma fold_remove_charge_keeps_zero:
  "q (atom_of mtop b) = 0 \<and> qB (atom_of mtop b) = 0 \<Longrightarrow>
   q (atom_of (fold remove_charge atoms mtop) b) = 0 \<and> qB (atom_of (fold remove_charge atoms mtop) b) = 0"
  by (induction atoms arbitrary: mtop) (simp_all add: remove_charge_keeps_zero)

lemma removeQmmmAtomCharges_zero:
  "a \<in> set atoms \<Longrightarrow>
   q (atom_of (removeQmmmAtomCharges mtop atoms) a) = 0
   \<and> qB (atom_of (removeQmmmAtomCharges mtop atoms) a) = 0"
  unfolding removeQmmmAtomCharges_def
proof (induction atoms arbitrary: mtop)
  case Nil
  then show ?case by simp
next
  case (Cons b atoms)
  show ?case
  proof (cases "a = b")
    case True
    then show ?thesis
      using fold_remove_charge_keeps_zero [OF remove_charge_zero, of atoms b mtop] by simp
  next
    case False
    then show ?thesis using Cons by simp
  qed
qed

lemma set_group_atoms:
  "set (group_atoms mtop i) = {a. 0 \<le> a \<and> a < int (natoms mtop) \<and> getGroupType mtop a = int i}"
proof -
  have "(\<exists>k \<in> {0 ..< natoms mtop}. a = int k) = (0 \<le> a \<and> a < int (natoms mtop))" for a
  proof
    assume "0 \<le> a \<and> a < int (natoms mtop)"
    then have "nat a \<in> {0 ..< natoms mtop}" "a = int (nat a)" by auto
    then show "\<exists>k \<in> {0 ..< natoms mtop}. a = int k" by blast
  qed auto
  then show ?thesis by (auto simp: group_atoms_def image_iff)
qed

lemma run_step_topology:
  "run_step bld ext srt be cr inp st = Some (Inr st') \<Longrightarrow> topology st' = topology st"
  by (auto simp: run_step_def split: sum.splits option.splits)

lemma run_steps_topology:
  "run_steps bld ext srt be cr inps st = Some (Inr st') \<Longrightarrow> topology st' = topology st"
proof (induction inps arbitrary: st)
  case Nil
  then show ?case by simp
next
  case (Cons inp inps)
  then show ?case
    by (auto split: option.splits sum.splits dest: run_step_topology)
qed

text \<open>
  C9. Under the normal scheme, once setup has completed, the charges \<open>q\<close> and \<open>qB\<close> of
  every QM atom (an atom of the topology whose QM group number is below the number of
  QM groups) are zero in the topology, and the topology after any number of dynamics
  steps is the topology that setup left: the charges are changed at setup and by no
  step.
\<close>

theorem qm_charges_zeroed_at_setup:
  assumes n: "ir_QMMMscheme ir = eQMMMschemenormal"
    and s: "run_setup bld cr mtop ir = Inr st0"
    and r: "run_steps bld ext srt be cr inps st0 = Some (Inr st)"
    and a: "0 \<le> a" "a < int (natoms mtop)" "0 \<le> getGroupType mtop a"
      "getGroupType mtop a < int (ngQM ir)"
  shows "q (atom_of (topology st0) a) = 0 \<and> qB (atom_of (topology st0) a) = 0
         \<and> topology st = topology st0"
proof -
  have ai: "qmmmAtomIndices bld ir mtop = Inr (concat (map (group_atoms mtop) [0 ..< ngQM ir]))"
    using n by (simp add: qmmmAtomIndices_normal)
  have t: "topology st0 = removeQmmmAtomCharges mtop (concat (map (group_atoms mtop) [0 ..< ngQM ir]))"
    using s n ai by (auto simp: run_setup_def split: sum.splits)
  have "nat (getGroupType mtop a) < ngQM ir" using a(3,4) by simp
  moreover have "a \<in> set (group_atoms mtop (nat (getGroupType mtop a)))"
    using a by (simp add: set_group_atoms)
  ultimately have "a \<in> set (concat (map (group_atoms mtop) [0 ..< ngQM ir]))"
    by auto
  then show ?thesis
    using removeQmmmAtomCharges_zero run_steps_topology [OF r] t by simp
qed

lemma sample_atoms: "qmmmAtomIndices sample_bld sample_ir sample_mtop = Inr [1, 2]"
  by code_simp

lemma sample_setup:
  "run_setup sample_bld \<lparr>nnodes = 1\<rparr> sample_mtop sample_ir
     = Inr \<lparr>topology = removeQmmmAtomCharges sample_mtop [1, 2], qmmmrec = sample_qr\<rparr>"
  by (simp add: run_setup_def sample_init sample_atoms) (simp add: sample_ir_def)

lemma sample_step:
  "run_steps sample_bld sample_ext (sort_key j) sample_be \<lparr>nnodes = 1\<rparr> [sample_inp]
       \<lparr>topology = removeQmmmAtomCharges sample_mtop [1, 2], qmmmrec = sample_qr\<rparr>
     = Some (Inr \<lparr>topology = removeQmmmAtomCharges sample_mtop [1, 2], qmmmrec = sample_qr_updated\<rparr>)"
proof -
  have fr: "\<lparr>qr = sample_qr, QMMMlist = sample_nl, shift_vec = shift_vec sample_fr\<rparr> = sample_fr"
    by (simp add: sample_fr_def)
  obtain f' fs' where c: "calculate_QMMM sample_bld sample_be (\<lambda>a. 0, \<lambda>s. 0) sample_qr_updated
      = Some (Inr (7, f', fs'))"
    using sample_calculate by blast
  show ?thesis
    by (simp add: run_step_def sample_inp_def fr sample_update c)
qed

theorem qm_charges_zeroed_at_setup_witness:
  "run_setup sample_bld \<lparr>nnodes = 1\<rparr> sample_mtop sample_ir
     = Inr \<lparr>topology = removeQmmmAtomCharges sample_mtop [1, 2], qmmmrec = sample_qr\<rparr>
   \<and> run_steps sample_bld sample_ext (sort_key j) sample_be \<lparr>nnodes = 1\<rparr> [sample_inp]
         \<lparr>topology = removeQmmmAtomCharges sample_mtop [1, 2], qmmmrec = sample_qr\<rparr>
       = Some (Inr \<lparr>topology = removeQmmmAtomCharges sample_mtop [1, 2], qmmmrec = sample_qr_updated\<rparr>)
   \<and> q (atom_of sample_mtop 2) = 1 / 2
   \<and> q (atom_of (removeQmmmAtomCharges sample_mtop [1, 2]) 2) = 0
   \<and> qB (atom_of (removeQmmmAtomCharges sample_mtop [1, 2]) 2) = 0"
proof -
  have n: "ir_QMMMscheme sample_ir = eQMMMschemenormal" by (simp add: sample_ir_def)
  have a: "(0::int) \<le> 2" "2 < int (natoms sample_mtop)" "0 \<le> getGroupType sample_mtop 2"
    "getGroupType sample_mtop 2 < int (ngQM sample_ir)"
    by (simp_all add: sample_mtop_def sample_ir_def)
  have o: "q (atom_of sample_mtop 2) = 1 / 2"
    by (simp add: atom_of_def sample_mtop_def)
  show ?thesis
    using qm_charges_zeroed_at_setup [OF n sample_setup sample_step a] sample_setup sample_step o
    by simp
qed

subsection \<open>The pass over the neighbour list\<close>

lemma nblist_row_entry:
  assumes "i < length qm_i" and "qm_i ! i = \<lparr>j = 0, shift = (if i = 0 then XYZ2IS ext 0 0 0 else 0)\<rparr>"
  shows "nblist_row ext box x nl i (qm_i, mm_j)
           = (qm_i[i := qm_i_entry ext box x nl i], mm_j @ mm_j_entries ext box x nl i)"
proof (cases "i = 0")
  case True
  then have "qm_i ! 0 = \<lparr>j = 0, shift = XYZ2IS ext 0 0 0\<rparr>" "0 < length qm_i"
    using assms by simp_all
  then show ?thesis
    using True
    by (simp add: nblist_row_def Let_def qm_i_entry_def mm_j_entries_def compose_shift_def)
next
  case False
  then show ?thesis
    using assms
    by (simp add: nblist_row_def Let_def qm_i_entry_def mm_j_entries_def compose_shift_def)
qed

lemma nblist_rows_upto:
  fixes nl :: t_nblist and ext :: externals
  defines "init \<equiv> (replicate (nri nl) \<lparr>j = 0, shift = 0\<rparr>)
                     [0 := \<lparr>j = 0, shift = XYZ2IS ext 0 0 0\<rparr>]"
  assumes "k \<le> nri nl"
  shows "fold (nblist_row ext box x nl) [0 ..< k] (init, [])
           = (map (qm_i_entry ext box x nl) [0 ..< k] @ drop k init,
              concat (map (mm_j_entries ext box x nl) [0 ..< k]))"
  using assms(2)
proof (induction k)
  case 0
  show ?case by simp
next
  case (Suc k)
  then have k: "k < nri nl" by simp
  have len: "length init = nri nl" by (simp add: init_def)
  define cur where "cur = map (qm_i_entry ext box x nl) [0 ..< k] @ drop k init"
  have lc: "length cur = nri nl" using k by (simp add: cur_def len)
  have at: "cur ! k = \<lparr>j = 0, shift = (if k = 0 then XYZ2IS ext 0 0 0 else 0)\<rparr>"
    using k by (simp add: cur_def nth_append len init_def nth_list_update)
  have upd: "cur[k := qm_i_entry ext box x nl k]
               = map (qm_i_entry ext box x nl) [0 ..< Suc k] @ drop (Suc k) init"
  proof -
    have "drop k init = init ! k # drop (Suc k) init"
      using k len by (simp add: Cons_nth_drop_Suc)
    then show ?thesis
      by (simp add: cur_def list_update_append)
  qed
  have "fold (nblist_row ext box x nl) [0 ..< Suc k] (init, [])
          = nblist_row ext box x nl k (cur, concat (map (mm_j_entries ext box x nl) [0 ..< k]))"
    using Suc.IH k by (simp add: cur_def)
  also have "\<dots> = (cur[k := qm_i_entry ext box x nl k],
                    concat (map (mm_j_entries ext box x nl) [0 ..< k]) @ mm_j_entries ext box x nl k)"
    using k lc at by (intro nblist_row_entry) simp_all
  finally show ?case by (simp add: upd)
qed

lemma nblist_pass_entries:
  "nblist_pass ext box x nl
     = (map (qm_i_entry ext box x nl) [0 ..< nri nl],
        concat (map (mm_j_entries ext box x nl) [0 ..< nri nl]))"
proof -
  have "nblist_pass ext box x nl
          = fold (nblist_row ext box x nl) [0 ..< nri nl]
              ((replicate (nri nl) \<lparr>j = 0, shift = 0\<rparr>)[0 := \<lparr>j = 0, shift = XYZ2IS ext 0 0 0\<rparr>], [])"
    by (cases "nri nl") (simp_all add: nblist_pass_def Let_def)
  then show ?thesis
    using nblist_rows_upto [of "nri nl" nl ext box x] by simp
qed

text \<open>
  C6, as the code has it. In the pass over the neighbour list the first i-particle is
  stored with the shift \<open>XYZ2IS(0,0,0)\<close>, and every other i-particle with the shift that
  \<open>pbc_dx_aiuc\<close> returns for it relative to the first i-particle, and nothing else: the
  shift that the neighbour list records for the row is not composed into the shift of
  the i-particle. It is composed, with the shift of the i-particle, into the shift of
  every j-particle of the row.
\<close>

theorem nblist_pass_shifts:
  "fst (nblist_pass ext box x nl)
     = map (\<lambda>i. \<lparr>j = iinr nl i,
                 shift = (if i = 0 then XYZ2IS ext 0 0 0
                          else pbc_dx_aiuc ext box (x (iinr nl 0)) (x (iinr nl i)))\<rparr>)
         [0 ..< nri nl]
   \<and> snd (nblist_pass ext box x nl)
     = concat (map (\<lambda>i. map (\<lambda>jj. \<lparr>j = jjnr nl jj,
                                     shift = compose_shift ext (nl_shift nl i)
                                        (if i = 0 then XYZ2IS ext 0 0 0
                                         else pbc_dx_aiuc ext box (x (iinr nl 0)) (x (iinr nl i)))\<rparr>)
                            [jindex nl i ..< jindex nl (Suc i)])
                [0 ..< nri nl])"
proof -
  have a: "qm_i_entry ext box x nl = (\<lambda>i. \<lparr>j = iinr nl i,
                 shift = (if i = 0 then XYZ2IS ext 0 0 0
                          else pbc_dx_aiuc ext box (x (iinr nl 0)) (x (iinr nl i)))\<rparr>)"
    by (simp add: fun_eq_iff qm_i_entry_def)
  have b: "mm_j_entries ext box x nl = (\<lambda>i. map (\<lambda>jj. \<lparr>j = jjnr nl jj,
                                     shift = compose_shift ext (nl_shift nl i)
                                        (if i = 0 then XYZ2IS ext 0 0 0
                                         else pbc_dx_aiuc ext box (x (iinr nl 0)) (x (iinr nl i)))\<rparr>)
                            [jindex nl i ..< jindex nl (Suc i)])"
    by (simp add: fun_eq_iff mm_j_entries_def qm_i_entry_def)
  show ?thesis
    unfolding nblist_pass_entries fst_conv snd_conv a b by simp
qed

text \<open>
  C6, as it is stated, fails on the example list: the second row records the shift 23,
  the second i-particle has the minimum-image shift 23 relative to the first one, the
  composition of the two is 24, and the i-particle is stored with 23.
\<close>

theorem i_particle_shift_not_composed:
  "nri sample_nl = 2
   \<and> nl_shift sample_nl 1 = 23
   \<and> pbc_dx_aiuc sample_ext sample_box (sample_x (iinr sample_nl 0)) (sample_x (iinr sample_nl 1)) = 23
   \<and> compose_shift sample_ext 23 23 = 24
   \<and> shift (fst (nblist_pass sample_ext sample_box sample_x sample_nl) ! 1) = 23"
  by (simp add: nblist_pass_entries qm_i_entry_def compose_shift_def sample_nl_def sample_ext_def
      sample_box_def sample_x_def)

subsection \<open>Sorting and the choice among entries of one atom\<close>
















subsection \<open>The walk that assigns the shifts of the QM atoms\<close>

lemma filter_prefix:
  assumes "sorted (map j r)" and "\<And>p p'. j p \<le> j p' \<Longrightarrow> Q p' \<Longrightarrow> Q p"
  shows "filter Q r = take (length (filter Q r)) r"
  using assms(1)
proof (induction r)
  case Nil
  show ?case by simp
next
  case (Cons x xs)
  show ?case
  proof (cases "Q x")
    case True
    then show ?thesis using Cons by simp
  next
    case False
    have "\<forall>y \<in> set xs. \<not> Q y"
    proof
      fix y assume "y \<in> set xs"
      then have "j x \<le> j y" using Cons.prems by auto
      then show "\<not> Q y" using False assms(2) by blast
    qed
    then have "filter Q xs = []" by (simp add: filter_empty_conv)
    then show ?thesis using False by simp
  qed
qed




















subsection \<open>The atom lists of the layers and of the MM environment\<close>

lemma indexQM_init_QMrec [simp]: "indexQM (init_QMrec g atoms mtop ir) = atoms"
  by (simp add: init_QMrec_def)

lemma init_single_layer_Inr: "init_single_layer bld qmmm = Inr qmmm' \<Longrightarrow> qmmm' = qmmm"
  by (auto simp: init_single_layer_def split: if_splits)

lemma init_QMMMrec_layers:
  assumes "init_QMMMrec bld cr mtop ir = Inr qmmm0"
  shows "\<exists>atoms. distinct atoms \<and> (\<forall>l < length (qm qmmm0). indexQM (qm qmmm0 ! l) = atoms)"
    and "\<not> PAR cr"
    and "QMMMscheme qmmm0 = eQMMMschemenormal \<Longrightarrow> length (qm qmmm0) = 1"
proof -
  show "\<not> PAR cr" using assms by (auto simp: init_QMMMrec_def split: if_splits)
  from qmmmAtomIndices_result [of bld ir mtop]
  obtain atoms where a: "qmmmAtomIndices bld ir mtop = Inr atoms" "qm_atoms_inv mtop (ngQM ir) atoms"
    using assms by (auto simp: init_QMMMrec_def split: if_splits)
  have d: "distinct atoms" using a(2) by (simp add: qm_atoms_inv_def)
  have q: "qm qmmm0 = map (\<lambda>i. init_QMrec i atoms mtop ir) [0 ..< ngQM ir]
           \<and> QMMMscheme qmmm0 = eQMMMschemeoniom
           \<or> qm qmmm0 = [init_QMrec 0 atoms mtop ir] \<and> QMMMscheme qmmm0 \<noteq> eQMMMschemeoniom"
    using assms a(1)
    by (auto simp: init_QMMMrec_def split: if_splits dest!: init_single_layer_Inr)
  then have "\<forall>l < length (qm qmmm0). indexQM (qm qmmm0 ! l) = atoms" by auto
  then show "\<exists>atoms. distinct atoms \<and> (\<forall>l < length (qm qmmm0). indexQM (qm qmmm0 ! l) = atoms)"
    using d by blast
  show "length (qm qmmm0) = 1" if "QMMMscheme qmmm0 = eQMMMschemenormal"
    using q that by auto
qed

lemma update_QMMM_coord_fields:
  assumes "update_QMMM_coord x shv qmr mmr = Inr (qmr', mmr')"
  shows "indexQM qmr' = indexQM qmr" and "indexMM mmr' = indexMM mmr"
    and "nrMMatoms mmr' = nrMMatoms mmr"
  using assms by (auto simp: update_QMMM_coord_def split: if_splits)

lemma shift_walk_indexQM: "shift_walk qa qmr = Inr qmr' \<Longrightarrow> indexQM qmr' = indexQM qmr"
  by (auto simp: shift_walk_def split: sum.splits)

lemma oniom_layer_shifts_indexQM:
  "oniom_layer_shifts ext box x qmr = Inr qmr' \<Longrightarrow> indexQM qmr' = indexQM qmr"
  by (auto simp: oniom_layer_shifts_def split: if_splits)

lemma map_indexQM_update:
  "l < length qs \<Longrightarrow> indexQM q' = indexQM (qs ! l) \<Longrightarrow> map indexQM (qs[l := q']) = map indexQM qs"
  by (simp add: map_update list_update_same_conv)

lemma oniom_layer_step_fields:
  assumes "oniom_layer_step ext box x shv l qmmm = Inr qmmm'"
  shows "map indexQM (qm qmmm') = map indexQM (qm qmmm) \<and> nrMMatoms (mm qmmm') = nrMMatoms (mm qmmm)"
proof -
  from assms obtain qmr qmr' mmr' where s: "l < length (qm qmmm)"
      "oniom_layer_shifts ext box x (qm qmmm ! l) = Inr qmr"
      "update_QMMM_coord x shv qmr (mm qmmm) = Inr (qmr', mmr')"
      "qmmm' = qmmm\<lparr>qm := (qm qmmm)[l := qmr'], mm := mmr'\<rparr>"
    by (auto simp: oniom_layer_step_def split: if_splits sum.splits)
  have "indexQM qmr' = indexQM (qm qmmm ! l)"
    using update_QMMM_coord_fields(1) [OF s(3)] oniom_layer_shifts_indexQM [OF s(2)] by simp
  then show ?thesis
    using s(1,4) update_QMMM_coord_fields(3) [OF s(3)] by (simp add: map_indexQM_update)
qed

lemma oniom_layers_fields:
  "for_loop (oniom_layer_step ext box x shv) ls qmmm = Inr qmmm' \<Longrightarrow>
   map indexQM (qm qmmm') = map indexQM (qm qmmm) \<and> nrMMatoms (mm qmmm') = nrMMatoms (mm qmmm)"
proof (induction ls arbitrary: qmmm)
  case Nil
  then show ?case by simp
next
  case (Cons l ls)
  then obtain q1 where q1: "oniom_layer_step ext box x shv l qmmm = Inr q1"
      "for_loop (oniom_layer_step ext box x shv) ls q1 = Inr qmmm'"
    by (auto split: sum.splits)
  show ?case using Cons.IH [OF q1(2)] oniom_layer_step_fields [OF q1(1)] by simp
qed

lemma update_from_nblist_indexQM:
  "update_from_nblist ext srt box x md nl qmr = Inr (qmr', mm_j) \<Longrightarrow> indexQM qmr' = indexQM qmr"
  by (auto simp: update_from_nblist_def Let_def split: sum.splits dest: shift_walk_indexQM)

lemma update_QMMMrec_indexQM:
  assumes "update_QMMMrec bld ext srt cr fr x md box = Inr qmmm'"
  shows "map indexQM (qm qmmm') = map indexQM (qm (qr fr))"
proof (cases "QMMMscheme (qr fr) = eQMMMschemenormal")
  case True
  from assms True obtain qmr mm_j mmr qmr' mmr' where s: "qm (qr fr) \<noteq> []"
      "(if nri (QMMMlist fr) \<noteq> 0
        then update_from_nblist ext srt box x md (QMMMlist fr) (qm (qr fr) ! 0)
        else Inr (qm (qr fr) ! 0, [])) = Inr (qmr, mm_j)"
      "update_QMMM_coord x (shift_vec fr) qmr mmr = Inr (qmr', mmr')"
      "qmmm' = (qr fr)\<lparr>qm := (qm (qr fr))[0 := qmr'], mm := mmr'\<rparr>"
    by (auto simp: update_QMMMrec_def Let_def split: if_splits sum.splits prod.splits)
  have "indexQM qmr = indexQM (qm (qr fr) ! 0)"
    using s(2) by (auto split: if_splits dest: update_from_nblist_indexQM)
  then have "indexQM qmr' = indexQM (qm (qr fr) ! 0)"
    using update_QMMM_coord_fields(1) [OF s(3)] by simp
  then show ?thesis using s(1,4) by (simp add: map_indexQM_update)
next
  case False
  then have "for_loop (oniom_layer_step ext box x (shift_vec fr)) [0 ..< nrQMlayers (qr fr)]
          ((qr fr)\<lparr>mm := (mm (qr fr))\<lparr>nrMMatoms := 0\<rparr>\<rparr>) = Inr qmmm'"
    using assms by (auto simp: update_QMMMrec_def split: if_splits)
  from oniom_layers_fields [OF this] show ?thesis by simp
qed

lemma update_QMMMrec_oniom_MM:
  assumes "update_QMMMrec bld ext srt cr fr x md box = Inr qmmm'"
    and "QMMMscheme (qr fr) \<noteq> eQMMMschemenormal"
  shows "nrMMatoms (mm qmmm') = 0"
proof -
  have "for_loop (oniom_layer_step ext box x (shift_vec fr)) [0 ..< nrQMlayers (qr fr)]
          ((qr fr)\<lparr>mm := (mm (qr fr))\<lparr>nrMMatoms := 0\<rparr>\<rparr>) = Inr qmmm'"
    using assms by (auto simp: update_QMMMrec_def split: if_splits)
  from oniom_layers_fields [OF this] show ?thesis by simp
qed

lemma update_normal_MM_visible:
  assumes "\<not> PAR cr" and "QMMMscheme (qr fr) = eQMMMschemenormal"
    and "update_QMMMrec bld ext srt cr fr x md box = Inr qmmm'"
  shows "\<forall>a \<in> set (indexMM (mm qmmm')). \<not> bQM md a"
proof -
  have "indexMM (mm qmmm') =
           map j (if nri (QMMMlist fr) \<noteq> 0
                  then mm_sort_filter srt md (snd (nblist_pass ext box x (QMMMlist fr))) else [])"
    by (rule update_normal_indexMM [OF assms])
  then show ?thesis
    using mm_sort_filter_visible [of _ srt md] by (auto simp: mm_visible_def split: if_splits)
qed

lemma sample_init3:
  "init_QMMMrec sample_bld \<lparr>nnodes = 1\<rparr> sample_mtop3 sample_ir3 = Inr sample_qr3"
  by code_simp

lemma init_QMMMrec_classifier:
  assumes "init_QMMMrec bld cr mtop ir = Inr qmmm0"
  shows "\<exists>atoms. qmmmAtomIndices bld ir mtop = Inr atoms \<and> distinct atoms"
  using qmmmAtomIndices_result [of bld ir mtop] assms
  by (auto simp: init_QMMMrec_def qm_atoms_inv_def split: if_splits)

text \<open>
  C3, as the code has it. When setup succeeds, the classifier has returned a list
  without duplicates, and the atom list of every layer has no duplicates. An update
  step changes no atom list of a layer. After an update step of a record with the atom
  lists of setup, the MM environment (the first \<open>nrMMatoms\<close> entries of \<open>indexMM\<close>) has
  no atom in common with any layer, provided \<open>md->bQM\<close> flags the atoms of the layers;
  under ONIOM it is empty. Nothing keeps the layers apart from each other.
\<close>

theorem qm_layer_atoms:
  assumes "init_QMMMrec bld cr mtop ir = Inr qmmm0"
    and "map indexQM (qm (qr fr)) = map indexQM (qm qmmm0)"
    and "QMMMscheme (qr fr) = QMMMscheme qmmm0"
    and "update_QMMMrec bld ext srt cr fr x md box = Inr qmmm'"
    and "\<forall>l < length (qm qmmm0). \<forall>a \<in> set (indexQM (qm qmmm0 ! l)). bQM md a"
  shows "(\<exists>atoms. qmmmAtomIndices bld ir mtop = Inr atoms \<and> distinct atoms)
       \<and> (\<forall>l < length (qm qmmm0). distinct (indexQM (qm qmmm0 ! l)))
       \<and> map indexQM (qm qmmm') = map indexQM (qm qmmm0)
       \<and> (\<forall>l < length (qm qmmm').
            set (take (nrMMatoms (mm qmmm')) (indexMM (mm qmmm'))) \<inter> set (indexQM (qm qmmm' ! l)) = {})"
proof -
  have d: "\<forall>l < length (qm qmmm0). distinct (indexQM (qm qmmm0 ! l))"
    using init_QMMMrec_layers(1) [OF assms(1)] by auto
  have m: "map indexQM (qm qmmm') = map indexQM (qm qmmm0)"
    using update_QMMMrec_indexQM [OF assms(4)] assms(2) by simp
  have len: "length (qm qmmm') = length (qm qmmm0)"
    using m by (metis length_map)
  have nth: "indexQM (qm qmmm' ! l) = indexQM (qm qmmm0 ! l)" if "l < length (qm qmmm')" for l
    using m that len by (metis nth_map)
  have mmq: "\<forall>l < length (qm qmmm').
            set (take (nrMMatoms (mm qmmm')) (indexMM (mm qmmm'))) \<inter> set (indexQM (qm qmmm' ! l)) = {}"
  proof (cases "QMMMscheme (qr fr) = eQMMMschemenormal")
    case True
    have v: "\<forall>a \<in> set (indexMM (mm qmmm')). \<not> bQM md a"
      by (rule update_normal_MM_visible [OF init_QMMMrec_layers(2) [OF assms(1)] True assms(4)])
    show ?thesis
    proof (intro allI impI)
      fix l assume l: "l < length (qm qmmm')"
      have "\<forall>a \<in> set (indexQM (qm qmmm' ! l)). bQM md a"
        using assms(5) l len nth by simp
      moreover have "set (take (nrMMatoms (mm qmmm')) (indexMM (mm qmmm'))) \<subseteq> set (indexMM (mm qmmm'))"
        by (rule set_take_subset)
      ultimately show "set (take (nrMMatoms (mm qmmm')) (indexMM (mm qmmm')))
                         \<inter> set (indexQM (qm qmmm' ! l)) = {}"
        using v by blast
    qed
  next
    case False
    then show ?thesis using update_QMMMrec_oniom_MM [OF assms(4)] by simp
  qed
  show ?thesis
    using init_QMMMrec_classifier [OF assms(1)] d m mmq by blast
qed

theorem qm_layer_atoms_witness:
  "init_QMMMrec sample_bld \<lparr>nnodes = 1\<rparr> sample_mtop sample_ir = Inr sample_qr
   \<and> update_QMMMrec sample_bld sample_ext (sort_key j) \<lparr>nnodes = 1\<rparr> sample_fr sample_x sample_md
         sample_box = Inr sample_qr_updated
   \<and> map indexQM (qm sample_qr_updated) = [[1, 2]]
   \<and> take (nrMMatoms (mm sample_qr_updated)) (indexMM (mm sample_qr_updated)) = [3, 5]
   \<and> bQM sample_md 1 \<and> bQM sample_md 2
   \<and> distinct (indexQM (qm sample_qr ! 0))
   \<and> set (take (nrMMatoms (mm sample_qr_updated)) (indexMM (mm sample_qr_updated)))
         \<inter> set (indexQM (qm sample_qr_updated ! 0)) = {}"
proof -
  have q: "qr sample_fr = sample_qr" by (simp add: sample_fr_def)
  have a: "map indexQM (qm (qr sample_fr)) = map indexQM (qm sample_qr)"
    "QMMMscheme (qr sample_fr) = QMMMscheme sample_qr" by (simp_all add: q)
  have l: "length (qm sample_qr) = 1" "indexQM (qm sample_qr ! 0) = [1, 2]"
    "length (qm sample_qr_updated) = 1"
    by (simp_all add: sample_qr_def sample_QMrec_def sample_qr_updated_def)
  have b: "\<forall>l < length (qm sample_qr). \<forall>a \<in> set (indexQM (qm sample_qr ! l)). bQM sample_md a"
    by (simp add: l sample_md_def)
  have m: "take (nrMMatoms (mm sample_qr_updated)) (indexMM (mm sample_qr_updated)) = [3, 5]"
    "map indexQM (qm sample_qr_updated) = [[1, 2]]"
    by (simp_all add: sample_qr_updated_def sample_qr_def sample_QMrec_def)
  show ?thesis
    using qm_layer_atoms [OF sample_init a sample_update b] sample_init sample_update
    by (simp add: l m) (simp add: sample_md_def)
qed

text \<open>
  C3, as it is stated, fails on the ONIOM example: setup gives the three layers the
  same atoms 1, 2, 3.
\<close>

theorem layers_share_atoms:
  "init_QMMMrec sample_bld \<lparr>nnodes = 1\<rparr> sample_mtop3 sample_ir3 = Inr sample_qr3
   \<and> indexQM (qm sample_qr3 ! 0) = [1, 2, 3]
   \<and> indexQM (qm sample_qr3 ! 1) = [1, 2, 3]
   \<and> set (indexQM (qm sample_qr3 ! 0)) \<inter> set (indexQM (qm sample_qr3 ! 1)) = {1, 2, 3}"
  by (simp add: sample_init3) (simp add: sample_qr3_def sample_QMrec3_def)

subsection \<open>The multi-layer branch of calculate\_QMMM\<close>

lemma oniom_layer_body_result:
  assumes "Suc i < length (qm qmmm)"
    and "low_level_QMrec (qm qmmm ! i) (qm qmmm ! Suc i) = Inr qm2"
    and "init_QMroutine bld (qm qmmm ! i) = None"
    and "call_QMroutine bld be qmmm (qm qmmm ! i) (mm qmmm) = Inr (e1, g1, gs1)"
    and "init_QMroutine bld qm2 = None"
    and "call_QMroutine bld be qmmm qm2 (mm qmmm) = Inr (e2, g2, gs2)"
    and "nrQMatoms (qm qmmm ! i) \<le> length (indexQM (qm qmmm ! i))"
    and "nrQMatoms (qm qmmm ! i) \<le> length (shiftQM (qm qmmm ! i))"
  shows "oniom_layer_body bld be qmmm i (E, fMM, fshiftMM)
           = Inr (nrQMatoms (qm qmmm ! i), E + e1 - e2,
                  (\<lambda>a. fMM a - scattered (indexQM (qm qmmm ! i)) 0 (\<lambda>n. g1 n - g2 n)
                                 (nrQMatoms (qm qmmm ! i)) a),
                  (\<lambda>s. fshiftMM s + scattered (shiftQM (qm qmmm ! i)) 0 (\<lambda>n. gs1 n - gs2 n)
                                 (nrQMatoms (qm qmmm ! i)) s))"
  using assms by (simp add: oniom_layer_body_def Let_def scatter_loop)

lemma oniom_last_layer_result:
  assumes "0 < nrQMlayers qmmm" and "nrQMlayers qmmm \<le> length (qm qmmm)"
    and "init_QMroutine bld (qm qmmm ! (nrQMlayers qmmm - 1)) = None"
    and "call_QMroutine bld be qmmm (qm qmmm ! (nrQMlayers qmmm - 1)) (mm qmmm) = Inr (e3, g3, gs3)"
    and "nrQMatoms (qm qmmm ! (nrQMlayers qmmm - 1)) \<le> length (indexQM (qm qmmm ! (nrQMlayers qmmm - 1)))"
    and "nrQMatoms (qm qmmm ! (nrQMlayers qmmm - 1)) \<le> length (shiftQM (qm qmmm ! (nrQMlayers qmmm - 1)))"
  shows "oniom_last_layer bld be qmmm (E, fMM, fshiftMM)
           = Inr (E + e3,
                  (\<lambda>a. fMM a - scattered (indexQM (qm qmmm ! (nrQMlayers qmmm - 1))) 0 g3
                                 (nrQMatoms (qm qmmm ! (nrQMlayers qmmm - 1))) a),
                  (\<lambda>s. fshiftMM s + scattered (shiftQM (qm qmmm ! (nrQMlayers qmmm - 1))) 0 gs3
                                 (nrQMatoms (qm qmmm ! (nrQMlayers qmmm - 1))) s))"
  using assms by (simp add: oniom_last_layer_def Let_def scatter_loop)

text \<open>
  When the first layer has at least as many atoms as there are layers, less two, the
  loop over the layers ends after its first round.
\<close>

lemma oniom_layers_first_only:
  assumes "2 \<le> nrQMlayers qmmm" and "nrQMlayers qmmm \<le> nrQMatoms (qm qmmm ! 0) + 2"
    and "oniom_layer_body bld be qmmm 0 st = Inr (nrQMatoms (qm qmmm ! 0), st')"
  shows "oniom_layers bld be qmmm 0 st = Some (Inr st')"
proof -
  have "oniom_layers bld be qmmm 0 st = oniom_layers bld be qmmm (Suc (nrQMatoms (qm qmmm ! 0))) st'"
    using assms(1,3) by (subst oniom_layers.simps) simp
  also have "\<dots> = Some (Inr st')"
    using assms(2) by (subst oniom_layers.simps) simp
  finally show ?thesis .
qed

lemma calculate_QMMM_first_and_last:
  assumes "GMX_QMMM bld" and "QMMMscheme qmmm = eQMMMschemeoniom"
    and "2 \<le> nrQMlayers qmmm" and "nrQMlayers qmmm \<le> length (qm qmmm)"
    and "nrQMlayers qmmm \<le> nrQMatoms (qm qmmm ! 0) + 2"
    and "low_level_QMrec (qm qmmm ! 0) (qm qmmm ! Suc 0) = Inr qm2"
    and "init_QMroutine bld (qm qmmm ! 0) = None"
    and "call_QMroutine bld be qmmm (qm qmmm ! 0) (mm qmmm) = Inr (e1, g1, gs1)"
    and "init_QMroutine bld qm2 = None"
    and "call_QMroutine bld be qmmm qm2 (mm qmmm) = Inr (e2, g2, gs2)"
    and "nrQMatoms (qm qmmm ! 0) \<le> length (indexQM (qm qmmm ! 0))"
    and "nrQMatoms (qm qmmm ! 0) \<le> length (shiftQM (qm qmmm ! 0))"
    and "init_QMroutine bld (qm qmmm ! (nrQMlayers qmmm - 1)) = None"
    and "call_QMroutine bld be qmmm (qm qmmm ! (nrQMlayers qmmm - 1)) (mm qmmm) = Inr (e3, g3, gs3)"
    and "nrQMatoms (qm qmmm ! (nrQMlayers qmmm - 1)) \<le> length (indexQM (qm qmmm ! (nrQMlayers qmmm - 1)))"
    and "nrQMatoms (qm qmmm ! (nrQMlayers qmmm - 1)) \<le> length (shiftQM (qm qmmm ! (nrQMlayers qmmm - 1)))"
  shows "\<exists>f' fs'. calculate_QMMM bld be (fMM, fshiftMM) qmmm = Some (Inr (e1 - e2 + e3, f', fs'))"
proof -
  have l: "Suc 0 < length (qm qmmm)" using assms(3,4) by simp
  have n: "0 < nrQMlayers qmmm" "nrQMlayers qmmm \<noteq> Suc 0" using assms(3) by simp_all
  note body = oniom_layer_body_result [OF l assms(6,7,8,9,10,11,12), of 0 fMM fshiftMM]
  note loop = oniom_layers_first_only [OF assms(3,5) body]
  note last = oniom_last_layer_result [OF n(1) assms(4,13,14,15,16)]
  show ?thesis
    using assms(1,2) n(2) by (simp add: calculate_QMMM_def loop last)
qed

text \<open>With two layers the loop has one round, and the result is the extrapolation.\<close>

lemma calculate_QMMM_two_layers:
  assumes "GMX_QMMM bld" and "QMMMscheme qmmm = eQMMMschemeoniom"
    and "nrQMlayers qmmm = 2" and "length (qm qmmm) = 2"
    and "low_level_QMrec (qm qmmm ! 0) (qm qmmm ! Suc 0) = Inr qm2"
    and "init_QMroutine bld (qm qmmm ! 0) = None"
    and "call_QMroutine bld be qmmm (qm qmmm ! 0) (mm qmmm) = Inr (e1, g1, gs1)"
    and "init_QMroutine bld qm2 = None"
    and "call_QMroutine bld be qmmm qm2 (mm qmmm) = Inr (e2, g2, gs2)"
    and "nrQMatoms (qm qmmm ! 0) \<le> length (indexQM (qm qmmm ! 0))"
    and "nrQMatoms (qm qmmm ! 0) \<le> length (shiftQM (qm qmmm ! 0))"
    and "init_QMroutine bld (qm qmmm ! Suc 0) = None"
    and "call_QMroutine bld be qmmm (qm qmmm ! Suc 0) (mm qmmm) = Inr (e3, g3, gs3)"
    and "nrQMatoms (qm qmmm ! Suc 0) \<le> length (indexQM (qm qmmm ! Suc 0))"
    and "nrQMatoms (qm qmmm ! Suc 0) \<le> length (shiftQM (qm qmmm ! Suc 0))"
  shows "\<exists>f' fs'. calculate_QMMM bld be (fMM, fshiftMM) qmmm
                     = Some (Inr (oniom_energy_spec bld be qmmm, f', fs'))"
proof -
  have s: "{..<Suc 0} = {0::nat}" by auto
  have "oniom_energy_spec bld be qmmm = e1 - e2 + e3"
    using assms(3,5,7,9,13) by (simp add: oniom_energy_spec_def energy_low_def energy_of_def s)
  moreover have "\<exists>f' fs'. calculate_QMMM bld be (fMM, fshiftMM) qmmm = Some (Inr (e1 - e2 + e3, f', fs'))"
    by (rule calculate_QMMM_first_and_last [OF assms(1,2) _ _ _ assms(5-11)])
      (simp_all add: assms)
  ultimately show ?thesis by simp
qed

lemma sample_layers3:
  "qm sample_qr3 ! 0 = sample_QMrec3\<lparr>QMmethod := 4\<rparr>"
  "qm sample_qr3 ! Suc 0 = sample_QMrec3\<lparr>QMmethod := 3\<rparr>"
  "qm sample_qr3 ! 2 = sample_QMrec3\<lparr>QMmethod := 2\<rparr>"
  "qm sample_qr3 ! Suc (Suc 0) = sample_QMrec3\<lparr>QMmethod := 2\<rparr>"
  "nrQMlayers sample_qr3 = 3" "length (qm sample_qr3) = 3"
  "QMMMscheme sample_qr3 = eQMMMschemeoniom"
  by (simp_all add: sample_qr3_def)

lemma sample_low3:
  "low_level_QMrec (sample_QMrec3\<lparr>QMmethod := 4\<rparr>) (sample_QMrec3\<lparr>QMmethod := 3\<rparr>)
     = Inr (sample_QMrec3\<lparr>QMmethod := 3\<rparr>)"
  "low_level_QMrec (sample_QMrec3\<lparr>QMmethod := 3\<rparr>) (sample_QMrec3\<lparr>QMmethod := 2\<rparr>)
     = Inr (sample_QMrec3\<lparr>QMmethod := 2\<rparr>)"
  by code_simp+

lemma sample_call3:
  "call_QMroutine sample_bld sample_be sample_qr3 (sample_QMrec3\<lparr>QMmethod := m\<rparr>) (mm sample_qr3)
     = (if m < 2 then Inl SemiEmpiricalOnlyMopac else Inr (sample_call (sample_QMrec3\<lparr>QMmethod := m\<rparr>) (mm sample_qr3)))"
  by (simp add: call_QMroutine_def sample_bld_def sample_be_def sample_qr3_def sample_QMrec3_def
      sample_QMrec_def)

lemma sample_init_routine3:
  "2 \<le> m \<Longrightarrow> init_QMroutine sample_bld (sample_QMrec3\<lparr>QMmethod := m\<rparr>) = None"
  by (simp add: init_QMroutine_def sample_bld_def)

lemma sample_calculate3:
  "\<exists>f' fs'. calculate_QMMM sample_bld sample_be (\<lambda>a. 0, \<lambda>s. 0) sample_qr3
              = Some (Inr (13, f', fs'))"
proof -
  have b: "GMX_QMMM sample_bld" by (simp add: sample_bld_def)
  have n: "nrQMatoms sample_QMrec3 = 3" "length (indexQM sample_QMrec3) = 3"
    "length (shiftQM sample_QMrec3) = 3"
    by (simp_all add: sample_QMrec3_def)
  have c: "call_QMroutine sample_bld sample_be sample_qr3 (sample_QMrec3\<lparr>QMmethod := m\<rparr>) (mm sample_qr3)
     = Inr (sample_energy m, (\<lambda>i. (sample_energy m * (1 + real i), 0, 0)), (\<lambda>i. (sample_energy m, 0, 0)))"
    if "2 \<le> m" for m
    using that by (simp add: sample_call3 sample_call_def)
  have "\<exists>f' fs'. calculate_QMMM sample_bld sample_be (\<lambda>a. 0, \<lambda>s. 0) sample_qr3
              = Some (Inr (sample_energy 4 - sample_energy 3 + sample_energy 2, f', fs'))"
    by (rule calculate_QMMM_first_and_last [where ?qm2.0 = "sample_QMrec3\<lparr>QMmethod := 3\<rparr>"])
      (simp_all add: b sample_layers3 sample_low3 sample_init_routine3 c n)
  then show ?thesis by (simp add: sample_energy_def)
qed

lemma sample_energy_spec3: "oniom_energy_spec sample_bld sample_be sample_qr3 = 10"
proof -
  have s: "{..<2::nat} = {0, Suc 0}" by auto
  have e: "energy_of sample_bld sample_be sample_qr3 (sample_QMrec3\<lparr>QMmethod := m\<rparr>) = sample_energy m"
    if "2 \<le> m" for m
    using that by (simp add: energy_of_def sample_call3 sample_call_def)
  show ?thesis
    by (simp add: oniom_energy_spec_def energy_low_def sample_layers3 sample_low3 e s)
      (simp add: sample_energy_def)
qed

text \<open>
  C1 on the ONIOM example with three layers of three atoms each and the energies 10 for
  the method of the first layer, 4 for that of the second and 7 for that of the third:
  the extrapolation of the specification is (10 - 4) + (4 - 7) + 7 = 10, and
  \<open>calculate_QMMM\<close> returns (10 - 4) + 7 = 13. The scatter loop at the end of the first
  round counts with the variable of the loop over the layers and leaves it at the
  number of atoms, so that the loop over the layers ends before the second layer.
\<close>

theorem oniom_three_layers_energy:
  "(\<exists>f' fs'. calculate_QMMM sample_bld sample_be (\<lambda>a. 0, \<lambda>s. 0) sample_qr3 = Some (Inr (13, f', fs')))
   \<and> oniom_energy_spec sample_bld sample_be sample_qr3 = 10"
  using sample_calculate3 sample_energy_spec3 by blast

end
